theory Spec2Isabelle
  imports Complex_Main "HOL-Library.Word"
begin

section \<open>The colour engine of the OKLab colour picker\<close>

text \<open>
  The model follows \<^verbatim>\<open>src/color-math.js\<close> and \<^verbatim>\<open>src/color-spaces.js\<close>.
  A JavaScript number is modelled as a real number: the arithmetic is the exact one, so
  rounding of doubles, overflow, NaN and the sign of zero are outside the model. The one
  exception is the derivation and the inversion of the matrix of an ICC profile, where
  the program tests a computed determinant against a threshold: there every operation
  and every decimal literal is followed by the rounding \<open>rnd\<close> of a double, which is a
  parameter of the model, so that what is proved holds for every rounding. A
  string is the list of its UTF-16 code units, a byte buffer a list of 8-bit words, a
  thrown exception a value \<open>Inl e\<close> of a sum type, and the global variable
  \<^verbatim>\<open>workingCS\<close> an explicit argument or a field of the application state.
\<close>

subsection \<open>OKLab and linear sRGB\<close>

type_synonym vec3 = "real \<times> real \<times> real"
type_synonym mat3 = "vec3 \<times> vec3 \<times> vec3"

text \<open>Step 1 of \<^verbatim>\<open>oklabToLinearSRGB\<close>: OKLab to cube-root encoded LMS.\<close>

definition oklabToLMSRoot :: "real \<Rightarrow> real \<Rightarrow> real \<Rightarrow> vec3" where
  "oklabToLMSRoot L a b =
     (L + 0.3963377774 * a + 0.2158037573 * b,
      L - 0.1055613458 * a - 0.0638541728 * b,
      L - 0.0894841775 * a - 1.2914855480 * b)"

text \<open>Step 3 of \<^verbatim>\<open>oklabToLinearSRGB\<close>: linear LMS to linear sRGB.\<close>

definition lmsToLinearSRGB :: "real \<Rightarrow> real \<Rightarrow> real \<Rightarrow> vec3" where
  "lmsToLinearSRGB lLinear mLinear sLinear =
     ( 4.0767416621 * lLinear - 3.3077115913 * mLinear + 0.2309699292 * sLinear,
      -1.2684380046 * lLinear + 2.6097574011 * mLinear - 0.3413193965 * sLinear,
      -0.0041960863 * lLinear - 0.7034186147 * mLinear + 1.7076147010 * sLinear)"

definition oklabToLinearSRGB :: "real \<Rightarrow> real \<Rightarrow> real \<Rightarrow> vec3" where
  "oklabToLinearSRGB L a b =
     (case oklabToLMSRoot L a b of
        (lCubeRoot, mCubeRoot, sCubeRoot) \<Rightarrow>
          lmsToLinearSRGB (lCubeRoot ^ 3) (mCubeRoot ^ 3) (sCubeRoot ^ 3))"

definition linearSRGBToLinearP3 :: "real \<Rightarrow> real \<Rightarrow> real \<Rightarrow> vec3" where
  "linearSRGBToLinearP3 r g b =
     (0.8224621209 * r + 0.1775378791 * g,
      0.0331941826 * r + 0.9668058174 * g,
      0.0170826307 * r + 0.0723974407 * g + 0.9105199286 * b)"

definition linearP3ToLinearSRGB :: "real \<Rightarrow> real \<Rightarrow> real \<Rightarrow> vec3" where
  "linearP3ToLinearSRGB r g b =
     ( 1.2249401762 * r - 0.2249401762 * g,
      -0.0420569549 * r + 1.0420569549 * g,
      -0.0196375546 * r - 0.0786360236 * g + 1.0982735782 * b)"

text \<open>Step 1 of \<^verbatim>\<open>linearSRGBToOKLab\<close>: linear sRGB to linear LMS.\<close>

definition linearSRGBToLMS :: "real \<Rightarrow> real \<Rightarrow> real \<Rightarrow> vec3" where
  "linearSRGBToLMS r g b =
     (0.4122214708 * r + 0.5363325363 * g + 0.0514459929 * b,
      0.2119034982 * r + 0.6806995451 * g + 0.1073969566 * b,
      0.0883024619 * r + 0.2817188376 * g + 0.6299787005 * b)"

text \<open>Step 3 of \<^verbatim>\<open>linearSRGBToOKLab\<close>: cube-root LMS to OKLab.\<close>

definition lmsRootToOKLab :: "real \<Rightarrow> real \<Rightarrow> real \<Rightarrow> vec3" where
  "lmsRootToOKLab lRoot mRoot sRoot =
     (0.2104542553 * lRoot + 0.7936177850 * mRoot - 0.0040720468 * sRoot,
      1.9779984951 * lRoot - 2.4285922050 * mRoot + 0.4505937099 * sRoot,
      0.0259040371 * lRoot + 0.7827717662 * mRoot - 0.8086757660 * sRoot)"

text \<open>\<^verbatim>\<open>Math.cbrt\<close> is the real cube root, negative on negative numbers.\<close>

definition linearSRGBToOKLab :: "real \<Rightarrow> real \<Rightarrow> real \<Rightarrow> vec3" where
  "linearSRGBToOKLab r g b =
     (case linearSRGBToLMS r g b of
        (lLinear, mLinear, sLinear) \<Rightarrow>
          lmsRootToOKLab (root 3 lLinear) (root 3 mLinear) (root 3 sLinear))"

text \<open>The composition of the two conversions: OKLab to linear sRGB and back.\<close>

definition oklabRoundTrip :: "real \<Rightarrow> real \<Rightarrow> real \<Rightarrow> vec3" where
  "oklabRoundTrip L a b =
     (case oklabToLinearSRGB L a b of (r, g, b') \<Rightarrow> linearSRGBToOKLab r g b')"

subsection \<open>OKLab and OKLCH\<close>

text \<open>
  \<^verbatim>\<open>Math.atan2(y, x)\<close> on real numbers: the angle of the point \<open>(x, y)\<close> in
  \<open>(-\<pi>, \<pi>]\<close>. At the origin the result of \<^verbatim>\<open>Math.atan2\<close> follows the signs of
  the two zeros, which a real number does not have: it is 0 for two positive zeros, the
  value of the model, and \<open>\<pi>\<close> or \<open>-\<pi>\<close> when \<open>x\<close> is a negative zero.
\<close>

definition atan2 :: "real \<Rightarrow> real \<Rightarrow> real" where
  "atan2 y x =
     (if 0 < x then arctan (y / x)
      else if x < 0 then (if 0 \<le> y then arctan (y / x) + pi else arctan (y / x) - pi)
      else if 0 < y then pi / 2
      else if y < 0 then - (pi / 2)
      else 0)"

definition oklabToOklch :: "real \<Rightarrow> real \<Rightarrow> real \<times> real" where
  "oklabToOklch a b =
     (let chroma = sqrt (a * a + b * b);
          hueDegrees = atan2 b a * (180 / pi)
      in (chroma, if hueDegrees < 0 then hueDegrees + 360 else hueDegrees))"


subsection \<open>Gamma and utility functions\<close>

definition clamp01 :: "real \<Rightarrow> real" where
  "clamp01 v = max 0 (min 1 v)"

text \<open>
  \<^verbatim>\<open>x ** y\<close> is used on a positive base only, where it is \<open>x powr y\<close>.
\<close>

definition linearToGamma :: "real \<Rightarrow> real" where
  "linearToGamma linearValue =
     (let clamped = max 0 (min 1 linearValue)
      in if clamped \<ge> 0.0031308 then 1.055 * (clamped powr (1 / 2.4)) - 0.055
         else 12.92 * clamped)"

definition gammaToLinear :: "real \<Rightarrow> real" where
  "gammaToLinear gammaValue =
     (if gammaValue \<ge> 0.04045 then ((gammaValue + 0.055) / 1.055) powr 2.4
      else gammaValue / 12.92)"

definition TOLERANCE :: real where
  "TOLERANCE = 5 / 10 ^ 4"

definition isInGamut :: "real \<Rightarrow> real \<Rightarrow> real \<Rightarrow> bool" where
  "isInGamut r g b \<longleftrightarrow>
     r \<ge> - TOLERANCE \<and> r \<le> 1 + TOLERANCE \<and>
     g \<ge> - TOLERANCE \<and> g \<le> 1 + TOLERANCE \<and>
     b \<ge> - TOLERANCE \<and> b \<le> 1 + TOLERANCE"

subsection \<open>Hex strings\<close>

text \<open>
  A string is the list of its UTF-16 code units; \<open>js\<close> writes one from an ASCII
  literal.
\<close>

type_synonym js_string = "nat list"

definition js :: "string \<Rightarrow> js_string" where
  "js s = map of_char s"

text \<open>\<^verbatim>\<open>Math.round\<close>: the nearest integer, a tie going up.\<close>

definition math_round :: "real \<Rightarrow> int" where
  "math_round x = \<lfloor>x + 1 / 2\<rfloor>"

text \<open>The digit of \<^verbatim>\<open>toString(16)\<close> for a value below 16: \<open>0-9\<close>, then \<open>a-f\<close>.\<close>

definition hexDigit :: "nat \<Rightarrow> nat" where
  "hexDigit d = (if d < 10 then 48 + d else 87 + d)"

function natToString16 :: "nat \<Rightarrow> js_string" where
  "natToString16 n =
     (if n < 16 then [hexDigit n] else natToString16 (n div 16) @ [hexDigit (n mod 16)])"
  by pat_completeness auto
termination
  by (relation "measure id") auto

declare natToString16.simps [simp del]

text \<open>\<^verbatim>\<open>Number.prototype.toString(16)\<close> on an integer; 45 is the minus sign.\<close>

definition toString16 :: "int \<Rightarrow> js_string" where
  "toString16 i = (if i < 0 then 45 # natToString16 (nat (- i)) else natToString16 (nat i))"

definition padStart :: "nat \<Rightarrow> nat \<Rightarrow> js_string \<Rightarrow> js_string" where
  "padStart n c s = replicate (n - length s) c @ s"

definition toByteHex :: "real \<Rightarrow> js_string" where
  "toByteHex v = padStart 2 48 (toString16 (math_round (clamp01 v * 255)))"

definition rgbToHex :: "real \<Rightarrow> real \<Rightarrow> real \<Rightarrow> js_string" where
  "rgbToHex r g b = 35 # toByteHex r @ toByteHex g @ toByteHex b"

definition linearToColorByte :: "real \<Rightarrow> int" where
  "linearToColorByte linearValue = math_round (linearToGamma linearValue * 255)"

text \<open>
  The code units that \<^verbatim>\<open>String.prototype.trim\<close> removes: the white space and the
  line terminators of ECMAScript.
\<close>

definition isWhiteSpace :: "nat \<Rightarrow> bool" where
  "isWhiteSpace c \<longleftrightarrow>
     c \<in> {0x9, 0xA, 0xB, 0xC, 0xD, 0x20, 0xA0, 0x1680, 0x2028, 0x2029, 0x202F, 0x205F,
          0x3000, 0xFEFF} \<or> (0x2000 \<le> c \<and> c \<le> 0x200A)"

definition trim :: "js_string \<Rightarrow> js_string" where
  "trim s = rev (dropWhile isWhiteSpace (rev (dropWhile isWhiteSpace s)))"






text \<open>\<^verbatim>\<open>str.slice(i, j)\<close> for \<open>0 \<le> i \<le> j\<close>.\<close>

definition slice :: "'a list \<Rightarrow> nat \<Rightarrow> nat \<Rightarrow> 'a list" where
  "slice xs i j = take (j - i) (drop i xs)"



subsection \<open>Matrix utilities\<close>

text \<open>
  \<^verbatim>\<open>x0*y0 + x1*y1 + x2*y2\<close> in doubles: each product and each sum is rounded.
\<close>

definition dot3 ::
  "(real \<Rightarrow> real) \<Rightarrow> real \<Rightarrow> real \<Rightarrow> real \<Rightarrow> real \<Rightarrow> real \<Rightarrow> real \<Rightarrow> real" where
  "dot3 rnd x0 y0 x1 y1 x2 y2 = rnd (rnd (rnd (x0 * y0) + rnd (x1 * y1)) + rnd (x2 * y2))"

definition mat3Multiply :: "(real \<Rightarrow> real) \<Rightarrow> mat3 \<Rightarrow> mat3 \<Rightarrow> mat3" where
  "mat3Multiply rnd A B =
     (case A of ((a00, a01, a02), (a10, a11, a12), (a20, a21, a22)) \<Rightarrow>
      case B of ((b00, b01, b02), (b10, b11, b12), (b20, b21, b22)) \<Rightarrow>
        ((dot3 rnd a00 b00 a01 b10 a02 b20,
          dot3 rnd a00 b01 a01 b11 a02 b21,
          dot3 rnd a00 b02 a01 b12 a02 b22),
         (dot3 rnd a10 b00 a11 b10 a12 b20,
          dot3 rnd a10 b01 a11 b11 a12 b21,
          dot3 rnd a10 b02 a11 b12 a12 b22),
         (dot3 rnd a20 b00 a21 b10 a22 b20,
          dot3 rnd a20 b01 a21 b11 a22 b21,
          dot3 rnd a20 b02 a21 b12 a22 b22)))"

text \<open>
  \<^verbatim>\<open>mat3Apply\<close> is read below only by the gamut test, in the exact arithmetic of the
  colour conversions.
\<close>

definition mat3Apply :: "mat3 \<Rightarrow> real \<Rightarrow> real \<Rightarrow> real \<Rightarrow> vec3" where
  "mat3Apply M r g b =
     (case M of ((m00, m01, m02), (m10, m11, m12), (m20, m21, m22)) \<Rightarrow>
        (m00 * r + m01 * g + m02 * b,
         m10 * r + m11 * g + m12 * b,
         m20 * r + m21 * g + m22 * b))"

text \<open>\<^verbatim>\<open>p*q - r*s\<close> in doubles.\<close>

definition minor2 :: "(real \<Rightarrow> real) \<Rightarrow> real \<Rightarrow> real \<Rightarrow> real \<Rightarrow> real \<Rightarrow> real" where
  "minor2 rnd p q r s = rnd (rnd (p * q) - rnd (r * s))"

text \<open>
  The local \<^verbatim>\<open>det\<close> of \<^verbatim>\<open>mat3Invert\<close>:
  \<^verbatim>\<open>a*(e*k-f*h) - b*(d*k-f*g) + c*(d*h-e*g)\<close>, as the doubles compute it.
\<close>

definition mat3Det :: "(real \<Rightarrow> real) \<Rightarrow> mat3 \<Rightarrow> real" where
  "mat3Det rnd M =
     (case M of ((a, b, c), (d, e, f), (g, h, k)) \<Rightarrow>
        rnd (rnd (rnd (a * minor2 rnd e k f h) - rnd (b * minor2 rnd d k f g))
             + rnd (c * minor2 rnd d h e g)))"

text \<open>
  \<^verbatim>\<open>mat3Invert\<close> returns \<^verbatim>\<open>null\<close>, here \<open>None\<close>, on a singular matrix. The
  threshold is the double of the literal \<^verbatim>\<open>1e-15\<close>.
\<close>

definition mat3Invert :: "(real \<Rightarrow> real) \<Rightarrow> mat3 \<Rightarrow> mat3 option" where
  "mat3Invert rnd M =
     (case M of ((a, b, c), (d, e, f), (g, h, k)) \<Rightarrow>
        let det = mat3Det rnd M
        in if \<bar>det\<bar> < rnd (1 / 10 ^ 15) then None
           else let inv = rnd (1 / det)
                in Some ((rnd (minor2 rnd e k f h * inv), rnd (minor2 rnd c h b k * inv),
                          rnd (minor2 rnd b f c e * inv)),
                         (rnd (minor2 rnd f g d k * inv), rnd (minor2 rnd a k c g * inv),
                          rnd (minor2 rnd c d a f * inv)),
                         (rnd (minor2 rnd d h e g * inv), rnd (minor2 rnd b g a h * inv),
                          rnd (minor2 rnd a e b d * inv))))"

text \<open>The doubles of a matrix of decimal literals.\<close>

definition mat3Literal :: "(real \<Rightarrow> real) \<Rightarrow> mat3 \<Rightarrow> mat3" where
  "mat3Literal rnd M =
     (case M of ((a, b, c), (d, e, f), (g, h, k)) \<Rightarrow>
        ((rnd a, rnd b, rnd c), (rnd d, rnd e, rnd f), (rnd g, rnd h, rnd k)))"

subsection \<open>Working colour spaces\<close>

definition XYZ_TO_LINEAR_SRGB :: mat3 where
  "XYZ_TO_LINEAR_SRGB =
     (( 3.2409699419045226, -1.5373831775700939, -0.4986107602930034),
      (-0.9692436362808796,  1.8759675015077202,  0.04155505740717559),
      ( 0.05563007969699366, -0.20397696064091520, 1.0569715142428786))"

definition LINEAR_SRGB_TO_XYZ :: mat3 where
  "LINEAR_SRGB_TO_XYZ =
     ((0.4123907992659595, 0.357584339383878, 0.1804807884018343),
      (0.21263900587151027, 0.715168678767756, 0.07219231536073371),
      (0.01933081871559182, 0.11919477979462598, 0.9505321522496607))"

definition BRADFORD_D50_TO_D65 :: mat3 where
  "BRADFORD_D50_TO_D65 =
     (( 0.9555766, -0.0230393, 0.0631636),
      (-0.0282895,  1.0099416, 0.0210077),
      ( 0.0122982, -0.0204830, 1.3299098))"

text \<open>
  \<^verbatim>\<open>Math.pow\<close> on real numbers. It is the power \<open>x powr y\<close> on a positive base,
  1 for the exponent 0, and 0 on the base 0 with a positive exponent. The remaining cases
  (a negative base, or the base 0 with a negative exponent) give NaN or Infinity in
  JavaScript, which are no real numbers: no property below reads the value there.
\<close>

definition math_pow :: "real \<Rightarrow> real \<Rightarrow> real" where
  "math_pow x y = (if y = 0 then 1 else x powr y)"

text \<open>
  A tone response curve: the pair of closures \<^verbatim>\<open>{ decode, encode }\<close> that
  \<^verbatim>\<open>parseTRC\<close> returns, as the data the closures capture. \<open>Gamma\<close> stands for the
  three places that build the same pair from one exponent, \<open>SRGBCurve\<close> for the pair
  \<^verbatim>\<open>{ decode: gammaToLinear, encode: linearToGamma }\<close>.
\<close>

datatype trc =
    Linear
  | Gamma real
  | Table "real list" "real list"
  | Para3 real real real real real
  | Para4 real real real real real real real
  | SRGBCurve

definition table_lookup :: "real list \<Rightarrow> real \<Rightarrow> real" where
  "table_lookup table v =
     (let x = max 0 (min 1 v) * real (length table - 1);
          lo = nat \<lfloor>x\<rfloor>;
          hi = min (lo + 1) (length table - 1)
      in table ! lo + (table ! hi - table ! lo) * (x - real lo))"

definition para3_encode :: "real \<Rightarrow> real \<Rightarrow> real \<Rightarrow> real \<Rightarrow> real \<Rightarrow> real \<Rightarrow> real" where
  "para3_encode g a b c d v =
     (let cutoff = c * d
      in if v \<le> cutoff \<and> c \<noteq> 0 then v / c
         else (math_pow (max 0 v) (1 / g) - b) / a)"

definition para4_encode ::
  "real \<Rightarrow> real \<Rightarrow> real \<Rightarrow> real \<Rightarrow> real \<Rightarrow> real \<Rightarrow> real \<Rightarrow> real \<Rightarrow> real" where
  "para4_encode g a b c d e f v =
     (let cutoff = c * d + f
      in if v \<le> cutoff \<and> c \<noteq> 0 then (v - f) / c
         else (math_pow (max 0 (v - e)) (1 / g) - b) / a)"

text \<open>
  The divisors that the two \<open>encode\<close> functions evaluate on the input \<open>v\<close>: the right
  operand of every \<^verbatim>\<open>/\<close> on the branch taken.
\<close>

definition para3_encode_divisors ::
  "real \<Rightarrow> real \<Rightarrow> real \<Rightarrow> real \<Rightarrow> real \<Rightarrow> real \<Rightarrow> real list" where
  "para3_encode_divisors g a b c d v =
     (let cutoff = c * d
      in if v \<le> cutoff \<and> c \<noteq> 0 then [c] else [g, a])"

definition para4_encode_divisors ::
  "real \<Rightarrow> real \<Rightarrow> real \<Rightarrow> real \<Rightarrow> real \<Rightarrow> real \<Rightarrow> real \<Rightarrow> real \<Rightarrow> real list" where
  "para4_encode_divisors g a b c d e f v =
     (let cutoff = c * d + f
      in if v \<le> cutoff \<and> c \<noteq> 0 then [c] else [g, a])"

fun trc_decode :: "trc \<Rightarrow> real \<Rightarrow> real" where
  "trc_decode Linear v = v"
| "trc_decode (Gamma g) v = math_pow (max 0 v) g"
| "trc_decode (Table table invTable) v = table_lookup table v"
| "trc_decode (Para3 g a b c d) v = (if v \<ge> d then math_pow (a * v + b) g else c * v)"
| "trc_decode (Para4 g a b c d e f) v =
     (if v \<ge> d then math_pow (a * v + b) g + e else c * v + f)"
| "trc_decode SRGBCurve v = gammaToLinear v"

fun trc_encode :: "trc \<Rightarrow> real \<Rightarrow> real" where
  "trc_encode Linear v = v"
| "trc_encode (Gamma g) v = math_pow (max 0 v) (1 / g)"
| "trc_encode (Table table invTable) v = table_lookup invTable v"
| "trc_encode (Para3 g a b c d) v = para3_encode g a b c d v"
| "trc_encode (Para4 g a b c d e f) v = para4_encode g a b c d e f v"
| "trc_encode SRGBCurve v = linearToGamma v"

text \<open>
  A working colour space: the two matrices that the closures \<^verbatim>\<open>toLinearSRGB\<close> and
  \<^verbatim>\<open>fromLinearSRGB\<close> capture, and one curve for each channel. The spaces made by
  \<^verbatim>\<open>createWorkingCS\<close> use one curve for all three channels.
\<close>

record working_cs =
  name :: js_string
  toSRGBMatrix :: mat3
  fromSRGBMatrix :: mat3
  rTRC :: trc
  gTRC :: trc
  bTRC :: trc
  perChannelTRC :: bool

definition toLinearSRGB :: "working_cs \<Rightarrow> real \<Rightarrow> real \<Rightarrow> real \<Rightarrow> vec3" where
  "toLinearSRGB cs r g b = mat3Apply (toSRGBMatrix cs) r g b"


definition decode :: "working_cs \<Rightarrow> real \<Rightarrow> nat \<Rightarrow> real" where
  "decode cs v ch =
     (if ch = 0 then trc_decode (rTRC cs) v
      else if ch = 1 then trc_decode (gTRC cs) v
      else trc_decode (bTRC cs) v)"

definition encode :: "working_cs \<Rightarrow> real \<Rightarrow> nat \<Rightarrow> real" where
  "encode cs v ch =
     (if ch = 0 then trc_encode (rTRC cs) v
      else if ch = 1 then trc_encode (gTRC cs) v
      else trc_encode (bTRC cs) v)"

definition createWorkingCS :: "js_string \<Rightarrow> mat3 \<Rightarrow> mat3 \<Rightarrow> trc \<Rightarrow> working_cs" where
  "createWorkingCS nm toSRGB fromSRGB curve =
     \<lparr>name = nm, toSRGBMatrix = toSRGB, fromSRGBMatrix = fromSRGB,
      rTRC = curve, gTRC = curve, bTRC = curve, perChannelTRC = False\<rparr>"

definition createSRGBWorkingCS :: working_cs where
  "createSRGBWorkingCS =
     (let I = ((1, 0, 0), (0, 1, 0), (0, 0, 1))
      in createWorkingCS (js ''sRGB'') I I SRGBCurve)"

definition createP3WorkingCS :: working_cs where
  "createP3WorkingCS =
     (let p3ToSRGB =
            (( 1.2249401762, -0.2249401762, 0.0),
             (-0.0420569549,  1.0420569549, 0.0),
             (-0.0196375546, -0.0786360236, 1.0982735782));
          srgbToP3 =
            ((0.8224621209, 0.1775378791, 0.0),
             (0.0331941826, 0.9668058174, 0.0),
             (0.0170826307, 0.0723974407, 0.9105199286))
      in createWorkingCS (js ''Display P3'') p3ToSRGB srgbToP3 SRGBCurve)"

subsection \<open>Gamut helpers\<close>

definition CHROMA_MAX :: real where
  "CHROMA_MAX = 0.4"





subsection \<open>ICC profile parser\<close>

type_synonym buffer = "8 word list"

text \<open>
  What \<^verbatim>\<open>parseICCProfile\<close> throws: the \<^verbatim>\<open>RangeError\<close> of a \<^verbatim>\<open>DataView\<close> read
  outside the buffer, and the two errors of the parser's own. The message of the
  \<^verbatim>\<open>RangeError\<close> is the engine's; the two others are those of the source.
\<close>

datatype icc_error = RangeError | NotMatrixProfile | SingularMatrix

definition errorMessage :: "icc_error \<Rightarrow> string" where
  "errorMessage e =
     (case e of
        RangeError \<Rightarrow> ''Offset is outside the bounds of the DataView''
      | NotMatrixProfile \<Rightarrow> ''Not a matrix-based RGB profile (missing XYZ tags)''
      | SingularMatrix \<Rightarrow> ''Singular matrix in ICC profile'')"

text \<open>Sequencing of steps that may throw: the first error ends the run.\<close>

definition andThen :: "'e + 'a \<Rightarrow> ('a \<Rightarrow> 'e + 'b) \<Rightarrow> 'e + 'b" where
  "andThen m f = (case m of Inl e \<Rightarrow> Inl e | Inr x \<Rightarrow> f x)"

text \<open>The big-endian reads of \<^verbatim>\<open>DataView\<close>.\<close>

definition getUint16 :: "buffer \<Rightarrow> nat \<Rightarrow> icc_error + nat" where
  "getUint16 buf off =
     (if off + 2 \<le> length buf
      then Inr (unat (buf ! off) * 256 + unat (buf ! (off + 1)))
      else Inl RangeError)"

definition getUint32 :: "buffer \<Rightarrow> nat \<Rightarrow> icc_error + nat" where
  "getUint32 buf off =
     (if off + 4 \<le> length buf
      then Inr (unat (buf ! off) * 16777216 + unat (buf ! (off + 1)) * 65536 +
                unat (buf ! (off + 2)) * 256 + unat (buf ! (off + 3)))
      else Inl RangeError)"

definition getInt32 :: "buffer \<Rightarrow> nat \<Rightarrow> icc_error + int" where
  "getInt32 buf off =
     andThen (getUint32 buf off)
       (\<lambda>u. Inr (if u \<ge> 2147483648 then int u - 4294967296 else int u))"

definition readS15Fixed16 :: "buffer \<Rightarrow> nat \<Rightarrow> icc_error + real" where
  "readS15Fixed16 buf off = andThen (getInt32 buf off) (\<lambda>raw. Inr (real_of_int raw / 65536))"

text \<open>
  \<^verbatim>\<open>String.fromCharCode(bytes[i], bytes[i+1], bytes[i+2], bytes[i+3])\<close>: an index
  outside the array reads \<^verbatim>\<open>undefined\<close>, which gives the code unit 0.
\<close>

definition byteAt :: "buffer \<Rightarrow> nat \<Rightarrow> nat" where
  "byteAt buf i = (if i < length buf then unat (buf ! i) else 0)"

definition fourCC :: "buffer \<Rightarrow> nat \<Rightarrow> js_string" where
  "fourCC buf ofs =
     [byteAt buf ofs, byteAt buf (ofs + 1), byteAt buf (ofs + 2), byteAt buf (ofs + 3)]"

record icc_tag =
  tag_offset :: nat
  tag_size :: nat

type_synonym tag_table = "js_string \<rightharpoonup> icc_tag"

text \<open>
  The loop over the tag table: \<open>i\<close> is the index of the entry, the third argument the
  number of entries that remain. A later entry with the same signature replaces an earlier
  one.
\<close>

fun readTagEntries :: "buffer \<Rightarrow> nat \<Rightarrow> nat \<Rightarrow> tag_table \<Rightarrow> icc_error + tag_table" where
  "readTagEntries buf i 0 tags = Inr tags"
| "readTagEntries buf i (Suc n) tags =
     (let base = 132 + i * 12;
          sig = fourCC buf base
      in andThen (getUint32 buf (base + 4)) (\<lambda>off.
         andThen (getUint32 buf (base + 8)) (\<lambda>sz.
           readTagEntries buf (Suc i) n (tags(sig \<mapsto> \<lparr>tag_offset = off, tag_size = sz\<rparr>)))))"

definition readTagTable :: "buffer \<Rightarrow> icc_error + tag_table" where
  "readTagTable buf =
     andThen (getUint32 buf 128) (\<lambda>tagCount. readTagEntries buf 0 tagCount Map.empty)"

text \<open>
  \<^verbatim>\<open>new TextDecoder('ascii')\<close> decodes windows-1252: a byte is its own code unit,
  but for the 32 bytes from \<open>0x80\<close>.
\<close>

definition windows1252_high :: "nat list" where
  "windows1252_high =
     [0x20AC, 0x81, 0x201A, 0x192, 0x201E, 0x2026, 0x2020, 0x2021,
      0x2C6, 0x2030, 0x160, 0x2039, 0x152, 0x8D, 0x17D, 0x8F,
      0x90, 0x2018, 0x2019, 0x201C, 0x201D, 0x2022, 0x2013, 0x2014,
      0x2DC, 0x2122, 0x161, 0x203A, 0x153, 0x9D, 0x17E, 0x178]"

definition decodeAscii :: "buffer \<Rightarrow> js_string" where
  "decodeAscii bs =
     map (\<lambda>w. let c = unat w
              in if 128 \<le> c \<and> c < 160 then windows1252_high ! (c - 128) else c) bs"

text \<open>\<^verbatim>\<open>s || 'Custom CS'\<close>: the empty string is replaced.\<close>

definition orCustomCS :: "js_string \<Rightarrow> js_string" where
  "orCustomCS s = (if s = [] then js ''Custom CS'' else s)"

text \<open>\<open>n\<close> big-endian 16-bit reads, two bytes apart, from the offset on.\<close>

fun readUint16s :: "buffer \<Rightarrow> nat \<Rightarrow> nat \<Rightarrow> icc_error + nat list" where
  "readUint16s buf off 0 = Inr []"
| "readUint16s buf off (Suc n) =
     andThen (getUint16 buf off) (\<lambda>x.
     andThen (readUint16s buf (off + 2) n) (\<lambda>xs. Inr (x # xs)))"

text \<open>
  The profile's name. For a description of the type \<open>mluc\<close> the source reads the
  length of the first record at \<^verbatim>\<open>descOff + 16\<close> and its offset at
  \<^verbatim>\<open>descOff + 20\<close>, and so does the model. The limits of the engine on the size
  of an array and on the number of arguments of a call are not modelled.
\<close>

definition readProfileName :: "buffer \<Rightarrow> tag_table \<Rightarrow> icc_error + js_string" where
  "readProfileName buf tags =
     (case tags (js ''desc'') of
        None \<Rightarrow> Inr (js ''Custom CS'')
      | Some t \<Rightarrow>
          let descOff = tag_offset t;
              descType = fourCC buf descOff
          in if descType = js ''desc'' then
               andThen (getUint32 buf (descOff + 8)) (\<lambda>strLen.
                 let strBytes = slice buf (descOff + 12) (descOff + 12 + strLen - 1)
                 in Inr (orCustomCS (trim (decodeAscii strBytes))))
             else if descType = js ''mluc'' then
               andThen (getUint32 buf (descOff + 8)) (\<lambda>recCount.
                 if recCount > 0 then
                   andThen (getUint32 buf (descOff + 16)) (\<lambda>recLen.
                   andThen (getUint32 buf (descOff + 20)) (\<lambda>recOff.
                   andThen (readUint16s buf (descOff + recOff) (recLen div 2)) (\<lambda>strData.
                     Inr (orCustomCS (trim (filter (\<lambda>c. c \<noteq> 0) strData))))))
                 else Inr (js ''Custom CS''))
             else Inr (js ''Custom CS''))"

definition readXYZTag :: "buffer \<Rightarrow> icc_tag \<Rightarrow> icc_error + vec3" where
  "readXYZTag buf t =
     (let ofs = tag_offset t + 8
      in andThen (readS15Fixed16 buf ofs) (\<lambda>x.
         andThen (readS15Fixed16 buf (ofs + 4)) (\<lambda>y.
         andThen (readS15Fixed16 buf (ofs + 8)) (\<lambda>z. Inr (x, y, z)))))"

text \<open>
  The matrix \<^verbatim>\<open>customToLinearSRGB\<close> from the three primaries: the primaries are the
  columns, adapted from D50 to D65 and taken to linear sRGB. The primaries are read
  exactly: a 32-bit integer divided by 65536 is a double.
\<close>

definition customToLinearSRGB :: "(real \<Rightarrow> real) \<Rightarrow> vec3 \<Rightarrow> vec3 \<Rightarrow> vec3 \<Rightarrow> mat3" where
  "customToLinearSRGB rnd rXYZ gXYZ bXYZ =
     (case rXYZ of (r0, r1, r2) \<Rightarrow>
      case gXYZ of (g0, g1, g2) \<Rightarrow>
      case bXYZ of (b0, b1, b2) \<Rightarrow>
        let customToXYZ_D50 = ((r0, g0, b0), (r1, g1, b1), (r2, g2, b2));
            customToXYZ_D65 =
              mat3Multiply rnd (mat3Literal rnd BRADFORD_D50_TO_D65) customToXYZ_D50
        in mat3Multiply rnd (mat3Literal rnd XYZ_TO_LINEAR_SRGB) customToXYZ_D65)"

text \<open>The inner loop of the inverse table: \<open>ti\<close> moves on while the next sample is below the target.\<close>

function advanceIndex :: "real list \<Rightarrow> real \<Rightarrow> nat \<Rightarrow> nat" where
  "advanceIndex table target ti =
     (if ti < length table - 2 \<and> table ! (ti + 1) < target
      then advanceIndex table target (ti + 1) else ti)"
  by pat_completeness auto
termination
  by (relation "measure (\<lambda>(table, target, ti). length table - 2 - ti)") auto

declare advanceIndex.simps [simp del]

text \<open>
  The outer loop of the inverse table, for a table of at least two samples: \<open>i\<close> is the
  index of the entry, the third argument the number of entries that remain, \<open>ti\<close> the
  position kept from one entry to the next.
\<close>

fun invTableFrom :: "real list \<Rightarrow> nat \<Rightarrow> nat \<Rightarrow> nat \<Rightarrow> real list" where
  "invTableFrom table i 0 ti = []"
| "invTableFrom table i (Suc n) ti =
     (let count = length table;
          target = real i / (4096 - 1);
          ti' = advanceIndex table target ti;
          t0 = table ! ti';
          t1 = table ! (min (ti' + 1) (count - 1));
          frac = (if t1 > t0 then (target - t0) / (t1 - t0) else 0)
      in ((real ti' + frac) / real (count - 1)) # invTableFrom table (Suc i) n ti')"

definition buildInvTable :: "real list \<Rightarrow> real list" where
  "buildInvTable table = invTableFrom table 0 4096 0"

definition parseTRC :: "buffer \<Rightarrow> icc_tag \<Rightarrow> icc_error + trc" where
  "parseTRC buf t =
     (let ofs = tag_offset t;
          type = fourCC buf ofs;
          p = (\<lambda>idx. readS15Fixed16 buf (ofs + 12 + idx * 4))
      in if type = js ''curv'' then
           andThen (getUint32 buf (ofs + 8)) (\<lambda>count.
             if count = 0 then Inr Linear
             else if count = 1 then
               andThen (getUint16 buf (ofs + 12)) (\<lambda>x. Inr (Gamma (real x / 256)))
             else
               andThen (readUint16s buf (ofs + 12) count) (\<lambda>xs.
                 let table = map (\<lambda>x. real x / 65535) xs
                 in Inr (Table table (buildInvTable table))))
         else if type = js ''para'' then
           andThen (getUint16 buf (ofs + 8)) (\<lambda>funcType.
             if funcType = 0 then andThen (p 0) (\<lambda>g. Inr (Gamma g))
             else if funcType = 3 then
               andThen (p 0) (\<lambda>g. andThen (p 1) (\<lambda>a. andThen (p 2) (\<lambda>b.
               andThen (p 3) (\<lambda>c. andThen (p 4) (\<lambda>d. Inr (Para3 g a b c d))))))
             else if funcType = 4 then
               andThen (p 0) (\<lambda>g. andThen (p 1) (\<lambda>a. andThen (p 2) (\<lambda>b.
               andThen (p 3) (\<lambda>c. andThen (p 4) (\<lambda>d. andThen (p 5) (\<lambda>e.
               andThen (p 6) (\<lambda>f. Inr (Para4 g a b c d e f))))))))
             else andThen (p 0) (\<lambda>g. Inr (Gamma g)))
         else Inr SRGBCurve)"

text \<open>A channel without its curve tag uses the sRGB transfer function.\<close>

definition channelTRC :: "buffer \<Rightarrow> icc_tag option \<Rightarrow> icc_error + trc" where
  "channelTRC buf t = (case t of Some tag \<Rightarrow> parseTRC buf tag | None \<Rightarrow> Inr SRGBCurve)"

definition parseICCProfile :: "(real \<Rightarrow> real) \<Rightarrow> buffer \<Rightarrow> icc_error + working_cs" where
  "parseICCProfile rnd buf =
     andThen (readTagTable buf) (\<lambda>tags.
     andThen (readProfileName buf tags) (\<lambda>profileName.
       case (tags (js ''rXYZ''), tags (js ''gXYZ''), tags (js ''bXYZ'')) of
         (Some rTag, Some gTag, Some bTag) \<Rightarrow>
           andThen (readXYZTag buf rTag) (\<lambda>rXYZ.
           andThen (readXYZTag buf gTag) (\<lambda>gXYZ.
           andThen (readXYZTag buf bTag) (\<lambda>bXYZ.
             let forward = customToLinearSRGB rnd rXYZ gXYZ bXYZ
             in case mat3Invert rnd forward of
                  None \<Rightarrow> Inl SingularMatrix
                | Some linearSRGBToCustom \<Rightarrow>
                    andThen (channelTRC buf (tags (js ''rTRC''))) (\<lambda>rT.
                    andThen (channelTRC buf (tags (js ''gTRC''))) (\<lambda>gT.
                    andThen (channelTRC buf (tags (js ''bTRC''))) (\<lambda>bT.
                      Inr \<lparr>name = profileName, toSRGBMatrix = forward,
                           fromSRGBMatrix = linearSRGBToCustom,
                           rTRC = rT, gTRC = gT, bTRC = bT, perChannelTRC = True\<rparr>))))))
       | _ \<Rightarrow> Inl NotMatrixProfile))"

text \<open>
  The part of the application state that an import touches: the active working colour
  space, the cached profile (the bytes that the source keeps as base64 text) and the
  messages shown by \<^verbatim>\<open>alert\<close>. Redrawing and saving are not modelled.
\<close>

record app_state =
  workingCS :: working_cs
  iccProfileBase64 :: "buffer option"
  alerts :: "string list"

text \<open>
  \<^verbatim>\<open>handleICCImport\<close>; the argument is the first selected file, if there is one. The
  assignment to \<^verbatim>\<open>workingCS\<close> happens only when \<^verbatim>\<open>parseICCProfile\<close> has returned.
\<close>

definition handleICCImport ::
  "(real \<Rightarrow> real) \<Rightarrow> buffer option \<Rightarrow> app_state \<Rightarrow> app_state" where
  "handleICCImport rnd file st =
     (case file of
        None \<Rightarrow> st
      | Some buf \<Rightarrow>
          (case parseICCProfile rnd buf of
             Inr cs \<Rightarrow> st\<lparr>workingCS := cs, iccProfileBase64 := Some buf\<rparr>
           | Inl err \<Rightarrow>
               st\<lparr>alerts := alerts st @
                    [''Failed to load ICC profile:'' @ [CHR 0x0A] @ errorMessage err]\<rparr>))"

text \<open>\<^verbatim>\<open>resetWorkingCS\<close>; the argument is \<^verbatim>\<open>isDisplayP3Supported\<close>.\<close>

definition resetWorkingCS :: "bool \<Rightarrow> app_state \<Rightarrow> app_state" where
  "resetWorkingCS isDisplayP3Supported st =
     st\<lparr>workingCS := (if isDisplayP3Supported then createP3WorkingCS else createSRGBWorkingCS),
        iccProfileBase64 := None\<rparr>"

subsection \<open>Example profiles\<close>

text \<open>
  Two buffers of a header of 128 bytes, the tag count and the tag table. The first has
  the tags \<open>rXYZ\<close> and \<open>bXYZ\<close> and lacks \<open>gXYZ\<close>. The second has all three, each
  at the offset 0, where the three numbers read are 0.
\<close>

definition missingGreenProfile :: buffer where
  "missingGreenProfile =
     replicate 131 0 @ [2] @
     [0x72, 0x58, 0x59, 0x5A, 0, 0, 0, 0, 0, 0, 0, 20] @
     [0x62, 0x58, 0x59, 0x5A, 0, 0, 0, 0, 0, 0, 0, 20]"

definition zeroPrimariesProfile :: buffer where
  "zeroPrimariesProfile =
     replicate 131 0 @ [3] @
     [0x72, 0x58, 0x59, 0x5A, 0, 0, 0, 0, 0, 0, 0, 20] @
     [0x67, 0x58, 0x59, 0x5A, 0, 0, 0, 0, 0, 0, 0, 20] @
     [0x62, 0x58, 0x59, 0x5A, 0, 0, 0, 0, 0, 0, 0, 20]"

text \<open>
  A version 4 display profile of 244 bytes: the header with the size, the version 4.2,
  the class \<open>mntr\<close>, the colour space \<open>RGB\<close>, the connection space \<open>XYZ\<close> and
  the signature \<open>acsp\<close>; three tags, \<open>desc\<close> at 168, \<open>rXYZ\<close> at 204 and \<open>bXYZ\<close>
  at 224, and no \<open>gXYZ\<close>; a description of the type \<open>mluc\<close> with one record of 12
  bytes (language \<open>en\<close>, country \<open>US\<close>, length 8, offset 28) and the name
  \<open>sRGB\<close> in UTF-16; and the two primaries.
\<close>

definition v4Header :: buffer where
  "v4Header =
     [0, 0, 0, 244, 0, 0, 0, 0, 0x04, 0x20, 0, 0] @
     [0x6D, 0x6E, 0x74, 0x72, 0x52, 0x47, 0x42, 0x20, 0x58, 0x59, 0x5A, 0x20] @
     replicate 12 0 @ [0x61, 0x63, 0x73, 0x70] @ replicate 88 0"

definition v4Body :: buffer where
  "v4Body =
     [0, 0, 0, 3,
      0x64, 0x65, 0x73, 0x63, 0, 0, 0, 168, 0, 0, 0, 36,
      0x72, 0x58, 0x59, 0x5A, 0, 0, 0, 204, 0, 0, 0, 20,
      0x62, 0x58, 0x59, 0x5A, 0, 0, 0, 224, 0, 0, 0, 20,
      0x6D, 0x6C, 0x75, 0x63, 0, 0, 0, 0, 0, 0, 0, 1, 0, 0, 0, 12,
      0x65, 0x6E, 0x55, 0x53, 0, 0, 0, 8, 0, 0, 0, 28,
      0, 0x73, 0, 0x52, 0, 0x47, 0, 0x42,
      0x58, 0x59, 0x5A, 0x20, 0, 0, 0, 0,
      0, 0, 0x6F, 0xA2, 0, 0, 0x38, 0xF5, 0, 0, 0x03, 0x90,
      0x58, 0x59, 0x5A, 0x20, 0, 0, 0, 0,
      0, 0, 0x24, 0xA0, 0, 0, 0x0F, 0x84, 0, 0, 0xB6, 0xCF]"

definition v4NoGreenProfile :: buffer where
  "v4NoGreenProfile = v4Header @ v4Body"

definition initialState :: app_state where
  "initialState = \<lparr>workingCS = createSRGBWorkingCS, iccProfileBase64 = None, alerts = []\<rparr>"

text \<open>A lower-case hex digit: \<open>0-9\<close> or \<open>a-f\<close>.\<close>

definition isLowerHexDigit :: "nat \<Rightarrow> bool" where
  "isLowerHexDigit c \<longleftrightarrow> (48 \<le> c \<and> c \<le> 57) \<or> (97 \<le> c \<and> c \<le> 102)"

section \<open>Properties\<close>

subsection \<open>Gamut test\<close>

text \<open>
  C6: \<open>isInGamut r g b\<close> holds exactly when each of the three components lies in
  \<open>[-0.0005, 1.0005]\<close>; \<open>isInGamut (1 + 0.0004) 0 0\<close> holds and
  \<open>isInGamut 1.001 0 0\<close> does not.
\<close>

theorem isInGamut_tolerance:
  "isInGamut r g b =
     (- 0.0005 \<le> r \<and> r \<le> 1.0005 \<and> - 0.0005 \<le> g \<and> g \<le> 1.0005 \<and>
      - 0.0005 \<le> b \<and> b \<le> 1.0005)
   \<and> isInGamut (1 + 0.0004) 0 0 \<and> \<not> isInGamut 1.001 0 0"
  by (auto simp: isInGamut_def TOLERANCE_def)

subsection \<open>Hex strings\<close>

lemma natToString16_small: "n < 16 \<Longrightarrow> natToString16 n = [hexDigit n]"
  by (simp add: natToString16.simps)

lemma natToString16_byte:
  "16 \<le> n \<Longrightarrow> n < 256 \<Longrightarrow> natToString16 n = [hexDigit (n div 16), hexDigit (n mod 16)]"
  by (subst natToString16.simps) (simp add: natToString16_small)

lemma math_round_byte:
  "0 \<le> math_round (clamp01 v * 255) \<and> math_round (clamp01 v * 255) \<le> 255"
  unfolding math_round_def clamp01_def by (auto simp: le_floor_iff floor_le_iff)

lemma byte_less_256: "nat (math_round (clamp01 v * 255)) < 256"
  using math_round_byte [of v] by linarith

lemma toByteHex_digits:
  "toByteHex v =
     [hexDigit (nat (math_round (clamp01 v * 255)) div 16),
      hexDigit (nat (math_round (clamp01 v * 255)) mod 16)]"
proof -
  let ?n = "nat (math_round (clamp01 v * 255))"
  have n: "?n < 256" by (rule byte_less_256)
  have nn: "\<not> math_round (clamp01 v * 255) < 0" using math_round_byte [of v] by linarith
  show ?thesis
  proof (cases "?n < 16")
    case True
    then show ?thesis
      by (simp add: toByteHex_def toString16_def nn padStart_def natToString16_small hexDigit_def)
  next
    case False
    then show ?thesis using n
      by (simp add: toByteHex_def toString16_def nn padStart_def natToString16_byte)
  qed
qed

lemma hexDigit_lower: "d < 16 \<Longrightarrow> isLowerHexDigit (hexDigit d)"
  by (auto simp: isLowerHexDigit_def hexDigit_def)




lemma toByteHex_lower: "list_all isLowerHexDigit (toByteHex v)"
proof -
  have "nat (math_round (clamp01 v * 255)) div 16 < 16"
    using byte_less_256 [of v] by auto
  then show ?thesis by (simp add: toByteHex_digits hexDigit_lower)
qed

lemma toByteHex_clamp: "toByteHex (clamp01 v) = toByteHex v"
  by (simp add: toByteHex_def clamp01_def)

lemma toByteHex_low: "v \<le> 0 \<Longrightarrow> toByteHex v = js ''00''"
  by (simp add: toByteHex_digits clamp01_def math_round_def js_def hexDigit_def)

lemma toByteHex_high: "1 \<le> v \<Longrightarrow> toByteHex v = js ''ff''"
  by (simp add: toByteHex_digits clamp01_def math_round_def js_def hexDigit_def)

lemma length_toByteHex: "length (toByteHex v) = 2"
  by (simp add: toByteHex_digits)

lemma rgbToHex_slices:
  "slice (rgbToHex r g b) 1 3 = toByteHex r"
  "slice (rgbToHex r g b) 3 5 = toByteHex g"
  "slice (rgbToHex r g b) 5 7 = toByteHex b"
  by (simp_all add: rgbToHex_def slice_def toByteHex_digits)

text \<open>
  C10: \<open>rgbToHex\<close> is defined on every triple of reals. Its result is \<open>#\<close> followed
  by exactly six lower-case hex digits, it depends on each channel only through its clamp
  to \<open>[0, 1]\<close>, and a channel at or below 0 gives \<open>00\<close>, one at or above 1 gives
  \<open>ff\<close>.
\<close>

theorem rgbToHex_total:
  "length (rgbToHex r g b) = 7 \<and> hd (rgbToHex r g b) = 35 \<and>
   list_all isLowerHexDigit (tl (rgbToHex r g b)) \<and>
   rgbToHex r g b = rgbToHex (clamp01 r) (clamp01 g) (clamp01 b) \<and>
   (r \<le> 0 \<longrightarrow> slice (rgbToHex r g b) 1 3 = js ''00'') \<and>
   (1 \<le> r \<longrightarrow> slice (rgbToHex r g b) 1 3 = js ''ff'') \<and>
   (g \<le> 0 \<longrightarrow> slice (rgbToHex r g b) 3 5 = js ''00'') \<and>
   (1 \<le> g \<longrightarrow> slice (rgbToHex r g b) 3 5 = js ''ff'') \<and>
   (b \<le> 0 \<longrightarrow> slice (rgbToHex r g b) 5 7 = js ''00'') \<and>
   (1 \<le> b \<longrightarrow> slice (rgbToHex r g b) 5 7 = js ''ff'')"
proof -
  have "length (rgbToHex r g b) = 7" "hd (rgbToHex r g b) = 35"
    by (simp_all add: rgbToHex_def length_toByteHex)
  moreover have "list_all isLowerHexDigit (tl (rgbToHex r g b))"
    by (simp add: rgbToHex_def toByteHex_lower)
  moreover have "rgbToHex r g b = rgbToHex (clamp01 r) (clamp01 g) (clamp01 b)"
    by (simp add: rgbToHex_def toByteHex_clamp)
  moreover have
    "(r \<le> 0 \<longrightarrow> slice (rgbToHex r g b) 1 3 = js ''00'') \<and>
     (1 \<le> r \<longrightarrow> slice (rgbToHex r g b) 1 3 = js ''ff'') \<and>
     (g \<le> 0 \<longrightarrow> slice (rgbToHex r g b) 3 5 = js ''00'') \<and>
     (1 \<le> g \<longrightarrow> slice (rgbToHex r g b) 3 5 = js ''ff'') \<and>
     (b \<le> 0 \<longrightarrow> slice (rgbToHex r g b) 5 7 = js ''00'') \<and>
     (1 \<le> b \<longrightarrow> slice (rgbToHex r g b) 5 7 = js ''ff'')"
    by (simp only: rgbToHex_slices) (simp add: toByteHex_low toByteHex_high)
  ultimately show ?thesis
    by blast
qed

theorem rgbToHex_total_witness:
  "(- 1 :: real) \<le> 0 \<and> (1 :: real) \<le> 2 \<and>
   slice (rgbToHex (- 1) 2 (- 1)) 1 3 = js ''00'' \<and>
   slice (rgbToHex (- 1) 2 (- 1)) 3 5 = js ''ff'' \<and>
   slice (rgbToHex (- 1) 2 (- 1)) 5 7 = js ''00'' \<and>
   slice (rgbToHex 2 (- 1) 2) 1 3 = js ''ff'' \<and>
   slice (rgbToHex 2 (- 1) 2) 3 5 = js ''00'' \<and>
   slice (rgbToHex 2 (- 1) 2) 5 7 = js ''ff''"
proof -
  have "(- 1 :: real) \<le> 0" and "(1 :: real) \<le> 2"
    by simp_all
  then show ?thesis
    using rgbToHex_total [of "- 1" 2 "- 1"] rgbToHex_total [of 2 "- 1" 2] by blast
qed







subsection \<open>ICC profiles\<close>

lemma readTagEntries_step:
  "0 < n \<Longrightarrow> readTagEntries buf i n tags =
     andThen (getUint32 buf (132 + i * 12 + 4)) (\<lambda>off.
     andThen (getUint32 buf (132 + i * 12 + 8)) (\<lambda>sz.
       readTagEntries buf (Suc i) (n - 1)
         (tags(fourCC buf (132 + i * 12) \<mapsto> \<lparr>tag_offset = off, tag_size = sz\<rparr>))))"
  by (cases n) (simp_all add: Let_def)

lemma missingGreen_length: "length missingGreenProfile = 156"
  by (simp add: missingGreenProfile_def)

lemma missingGreen_header: "i < 131 \<Longrightarrow> missingGreenProfile ! i = 0"
  by (simp add: missingGreenProfile_def nth_append)

lemma missingGreen_table:
  "131 \<le> i \<Longrightarrow> missingGreenProfile ! i =
     [2, 0x72, 0x58, 0x59, 0x5A, 0, 0, 0, 0, 0, 0, 0, 20,
      0x62, 0x58, 0x59, 0x5A, 0, 0, 0, 0, 0, 0, 0, 20] ! (i - 131)"
  by (simp add: missingGreenProfile_def nth_append)

lemma missingGreen_tags:
  "readTagTable missingGreenProfile =
     Inr [js ''rXYZ'' \<mapsto> \<lparr>tag_offset = 0, tag_size = 20\<rparr>,
          js ''bXYZ'' \<mapsto> \<lparr>tag_offset = 0, tag_size = 20\<rparr>]"
  by (simp add: readTagTable_def getUint32_def missingGreen_length missingGreen_header
      missingGreen_table andThen_def readTagEntries_step fourCC_def byteAt_def js_def)

lemma zeroPrimaries_length: "length zeroPrimariesProfile = 168"
  by (simp add: zeroPrimariesProfile_def)

lemma zeroPrimaries_header: "i < 131 \<Longrightarrow> zeroPrimariesProfile ! i = 0"
  by (simp add: zeroPrimariesProfile_def nth_append)

lemma zeroPrimaries_table:
  "131 \<le> i \<Longrightarrow> zeroPrimariesProfile ! i =
     [3, 0x72, 0x58, 0x59, 0x5A, 0, 0, 0, 0, 0, 0, 0, 20,
      0x67, 0x58, 0x59, 0x5A, 0, 0, 0, 0, 0, 0, 0, 20,
      0x62, 0x58, 0x59, 0x5A, 0, 0, 0, 0, 0, 0, 0, 20] ! (i - 131)"
  by (simp add: zeroPrimariesProfile_def nth_append)

lemma zeroPrimaries_tags:
  "readTagTable zeroPrimariesProfile =
     Inr [js ''rXYZ'' \<mapsto> \<lparr>tag_offset = 0, tag_size = 20\<rparr>,
          js ''gXYZ'' \<mapsto> \<lparr>tag_offset = 0, tag_size = 20\<rparr>,
          js ''bXYZ'' \<mapsto> \<lparr>tag_offset = 0, tag_size = 20\<rparr>]"
  by (simp add: readTagTable_def getUint32_def zeroPrimaries_length zeroPrimaries_header
      zeroPrimaries_table andThen_def readTagEntries_step fourCC_def byteAt_def js_def)

lemma zeroPrimaries_XYZ:
  "readXYZTag zeroPrimariesProfile \<lparr>tag_offset = 0, tag_size = 20\<rparr> = Inr (0, 0, 0)"
  by (simp add: readXYZTag_def readS15Fixed16_def getInt32_def getUint32_def andThen_def
      zeroPrimaries_length zeroPrimaries_header)

lemma mat3Invert_None_iff:
  "mat3Invert rnd M = None \<longleftrightarrow> \<bar>mat3Det rnd M\<bar> < rnd (1 / 10 ^ 15)"
  by (simp add: mat3Invert_def Let_def split: prod.splits)

lemma andThen_Inl:
  "andThen m f = Inl e \<Longrightarrow> m = Inl e \<or> (\<exists>x. m = Inr x \<and> f x = Inl e)"
  by (cases m) (simp_all add: andThen_def)

lemma getUint16_error: "getUint16 buf off = Inl e \<Longrightarrow> e = RangeError"
  by (simp add: getUint16_def split: if_splits)

lemma getUint32_error: "getUint32 buf off = Inl e \<Longrightarrow> e = RangeError"
  by (simp add: getUint32_def split: if_splits)

lemma readS15Fixed16_error: "readS15Fixed16 buf off = Inl e \<Longrightarrow> e = RangeError"
  unfolding readS15Fixed16_def getInt32_def
  by (auto dest!: andThen_Inl dest: getUint32_error)

lemma readUint16s_error: "readUint16s buf off n = Inl e \<Longrightarrow> e = RangeError"
proof (induction n arbitrary: off e)
  case 0
  then show ?case by simp
next
  case (Suc n)
  then show ?case
    by (auto dest!: andThen_Inl dest: getUint16_error)
qed

lemma parseTRC_error: "parseTRC buf t = Inl e \<Longrightarrow> e = RangeError"
  unfolding parseTRC_def Let_def
  by (auto dest!: andThen_Inl dest: getUint16_error getUint32_error readS15Fixed16_error
      readUint16s_error split: if_splits)

lemma channelTRC_error: "channelTRC buf t = Inl e \<Longrightarrow> e = RangeError"
  by (cases t) (auto simp: channelTRC_def dest: parseTRC_error)


lemma parseICCProfile_missing:
  assumes "readTagTable buf = Inr tags" and "readProfileName buf tags = Inr nm"
    and "tags (js ''rXYZ'') = None \<or> tags (js ''gXYZ'') = None \<or> tags (js ''bXYZ'') = None"
  shows "parseICCProfile rnd buf = Inl NotMatrixProfile"
  using assms by (auto simp: parseICCProfile_def andThen_def split: option.splits)

lemma parseICCProfile_name_error:
  assumes "readTagTable buf = Inr tags" and "readProfileName buf tags = Inl e"
  shows "parseICCProfile rnd buf = Inl e"
  using assms by (simp add: parseICCProfile_def andThen_def)

lemma parseICCProfile_missing_fails:
  assumes "readTagTable buf = Inr tags"
    and "tags (js ''rXYZ'') = None \<or> tags (js ''gXYZ'') = None \<or> tags (js ''bXYZ'') = None"
  shows "\<exists>e. parseICCProfile rnd buf = Inl e"
proof (cases "readProfileName buf tags")
  case (Inl e)
  then show ?thesis using parseICCProfile_name_error [OF assms(1)] by blast
next
  case (Inr nm)
  then show ?thesis using parseICCProfile_missing [OF assms(1) Inr assms(2)] by blast
qed

lemma handleICCImport_failure:
  "parseICCProfile rnd buf = Inl e \<Longrightarrow>
     handleICCImport rnd (Some buf) st =
       st\<lparr>alerts := alerts st @ [''Failed to load ICC profile:'' @ [CHR 0x0A] @ errorMessage e]\<rparr>"
  by (simp add: handleICCImport_def)

text \<open>
  An import whose parsing fails, with any error, shows the message and leaves the active
  working colour space and the cached profile as they were: \<open>handleICCImport\<close> assigns
  them only once \<open>parseICCProfile\<close> has returned.
\<close>

lemma failed_import_keeps_state:
  assumes "parseICCProfile rnd buf = Inl e"
  shows "workingCS (handleICCImport rnd (Some buf) st) = workingCS st"
    and "iccProfileBase64 (handleICCImport rnd (Some buf) st) = iccProfileBase64 st"
  by (simp_all add: handleICCImport_failure [OF assms])

text \<open>
  When the description of a buffer is read and its tag table lacks one of \<open>rXYZ\<close>,
  \<open>gXYZ\<close>, \<open>bXYZ\<close>, the import shows the message
  "Not a matrix-based RGB profile (missing XYZ tags)". This is the path of a profile with
  no description or with a description of the type \<open>desc\<close>, as \<open>missingGreenProfile\<close>.
\<close>

lemma missing_tags_named_profile:
  assumes "readTagTable buf = Inr tags" and "readProfileName buf tags = Inr nm"
    and "tags (js ''rXYZ'') = None \<or> tags (js ''gXYZ'') = None \<or> tags (js ''bXYZ'') = None"
  shows "alerts (handleICCImport rnd (Some buf) st) = alerts st @
        [''Failed to load ICC profile:'' @ [CHR 0x0A] @
         ''Not a matrix-based RGB profile (missing XYZ tags)'']"
  by (simp add: handleICCImport_failure [OF parseICCProfile_missing [OF assms]]
      errorMessage_def)

lemma missingGreen_import:
  "parseICCProfile rnd missingGreenProfile = Inl NotMatrixProfile \<and>
   workingCS (handleICCImport rnd (Some missingGreenProfile) initialState) =
     createSRGBWorkingCS \<and>
   iccProfileBase64 (handleICCImport rnd (Some missingGreenProfile) initialState) = None \<and>
   alerts (handleICCImport rnd (Some missingGreenProfile) initialState) =
     [''Failed to load ICC profile:'' @ [CHR 0x0A] @
      ''Not a matrix-based RGB profile (missing XYZ tags)'']"
proof -
  let ?tags = "[js ''rXYZ'' \<mapsto> \<lparr>tag_offset = 0, tag_size = 20\<rparr>,
                js ''bXYZ'' \<mapsto> \<lparr>tag_offset = 0, tag_size = 20\<rparr>]"
  have n: "readProfileName missingGreenProfile ?tags = Inr (js ''Custom CS'')"
    by (simp add: readProfileName_def js_def)
  have g: "?tags (js ''rXYZ'') = None \<or> ?tags (js ''gXYZ'') = None \<or>
           ?tags (js ''bXYZ'') = None"
    by (simp add: js_def)
  have p: "parseICCProfile rnd missingGreenProfile = Inl NotMatrixProfile"
    by (rule parseICCProfile_missing [OF missingGreen_tags n g])
  show ?thesis
    by (simp add: p handleICCImport_failure [OF p] initialState_def errorMessage_def)
qed

lemma readUint16s_out_of_range:
  "0 < n \<Longrightarrow> length buf < off + 2 * n \<Longrightarrow> readUint16s buf off n = Inl RangeError"
proof (induction n arbitrary: off)
  case 0
  then show ?case by simp
next
  case (Suc n)
  show ?case
  proof (cases "off + 2 \<le> length buf")
    case True
    then have "0 < n" and "length buf < (off + 2) + 2 * n"
      using Suc.prems by simp_all
    then have "readUint16s buf (off + 2) n = Inl RangeError"
      by (rule Suc.IH)
    then show ?thesis by (simp add: andThen_def getUint16_def True)
  next
    case False
    then show ?thesis by (simp add: andThen_def getUint16_def)
  qed
qed

lemma v4Header_length: "length v4Header = 128"
  by (simp add: v4Header_def)

lemma v4NoGreen_length: "length v4NoGreenProfile = 244"
  by (simp add: v4NoGreenProfile_def v4Header_length v4Body_def)

lemma v4NoGreen_body: "128 \<le> i \<Longrightarrow> v4NoGreenProfile ! i = v4Body ! (i - 128)"
  by (simp add: v4NoGreenProfile_def v4Header_length nth_append)

lemma v4NoGreen_tags:
  "readTagTable v4NoGreenProfile =
     Inr [js ''desc'' \<mapsto> \<lparr>tag_offset = 168, tag_size = 36\<rparr>,
          js ''rXYZ'' \<mapsto> \<lparr>tag_offset = 204, tag_size = 20\<rparr>,
          js ''bXYZ'' \<mapsto> \<lparr>tag_offset = 224, tag_size = 20\<rparr>]"
  by (simp add: readTagTable_def getUint32_def v4NoGreen_length v4NoGreen_body v4Body_def
      andThen_def readTagEntries_step fourCC_def byteAt_def js_def)

lemma v4NoGreen_name:
  "readProfileName v4NoGreenProfile
     [js ''desc'' \<mapsto> \<lparr>tag_offset = 168, tag_size = 36\<rparr>,
      js ''rXYZ'' \<mapsto> \<lparr>tag_offset = 204, tag_size = 20\<rparr>,
      js ''bXYZ'' \<mapsto> \<lparr>tag_offset = 224, tag_size = 20\<rparr>] = Inl RangeError"
proof -
  have t: "[js ''desc'' \<mapsto> \<lparr>tag_offset = 168, tag_size = 36\<rparr>,
            js ''rXYZ'' \<mapsto> \<lparr>tag_offset = 204, tag_size = 20\<rparr>,
            js ''bXYZ'' \<mapsto> \<lparr>tag_offset = 224, tag_size = 20\<rparr>] (js ''desc'') =
           Some \<lparr>tag_offset = 168, tag_size = 36\<rparr>"
    by (simp add: js_def)
  have f: "fourCC v4NoGreenProfile 168 = js ''mluc''"
    by (simp add: fourCC_def byteAt_def v4NoGreen_length v4NoGreen_body v4Body_def js_def)
  have d: "js ''mluc'' \<noteq> js ''desc''"
    by (simp add: js_def)
  have c: "getUint32 v4NoGreenProfile 176 = Inr 1"
    by (simp add: getUint32_def v4NoGreen_length v4NoGreen_body v4Body_def)
  have l: "getUint32 v4NoGreenProfile 184 = Inr 1701729619"
    by (simp add: getUint32_def v4NoGreen_length v4NoGreen_body v4Body_def)
  have r: "getUint32 v4NoGreenProfile 188 = Inr 8"
    by (simp add: getUint32_def v4NoGreen_length v4NoGreen_body v4Body_def)
  have u: "readUint16s v4NoGreenProfile 176 850864809 = Inl RangeError"
    by (rule readUint16s_out_of_range) (simp_all add: v4NoGreen_length)
  have "readProfileName v4NoGreenProfile
     [js ''desc'' \<mapsto> \<lparr>tag_offset = 168, tag_size = 36\<rparr>,
      js ''rXYZ'' \<mapsto> \<lparr>tag_offset = 204, tag_size = 20\<rparr>,
      js ''bXYZ'' \<mapsto> \<lparr>tag_offset = 224, tag_size = 20\<rparr>] =
      andThen (readUint16s v4NoGreenProfile 176 850864809) (\<lambda>strData.
        Inr (orCustomCS (trim (filter (\<lambda>c. c \<noteq> 0) strData))))"
    unfolding readProfileName_def t by (simp add: f d c l r andThen_def)
  then show ?thesis by (simp add: u andThen_def)
qed

text \<open>
  C3: \<open>v4NoGreenProfile\<close> is a version 4 profile whose tag table has \<open>desc\<close>,
  \<open>rXYZ\<close> and \<open>bXYZ\<close> and lacks \<open>gXYZ\<close>. Its import does not fail with the error
  "Not a matrix-based RGB profile (missing XYZ tags)": the reader of the name takes the
  language and country of the first record of the \<open>mluc\<close> description for the length
  of the name and runs past the end of the buffer, so the import shows the message of a
  \<open>RangeError\<close>. The active working colour space and the cached profile are left as
  they were.
\<close>

theorem import_v4_missing_gXYZ:
  "(\<exists>tags. readTagTable v4NoGreenProfile = Inr tags \<and> tags (js ''gXYZ'') = None \<and>
      tags (js ''rXYZ'') \<noteq> None \<and> tags (js ''bXYZ'') \<noteq> None) \<and>
   parseICCProfile rnd v4NoGreenProfile = Inl RangeError \<and>
   parseICCProfile rnd v4NoGreenProfile \<noteq> Inl NotMatrixProfile \<and>
   alerts (handleICCImport rnd (Some v4NoGreenProfile) initialState) =
     [''Failed to load ICC profile:'' @ [CHR 0x0A] @ errorMessage RangeError] \<and>
   errorMessage RangeError \<noteq> ''Not a matrix-based RGB profile (missing XYZ tags)'' \<and>
   workingCS (handleICCImport rnd (Some v4NoGreenProfile) initialState) =
     workingCS initialState \<and>
   iccProfileBase64 (handleICCImport rnd (Some v4NoGreenProfile) initialState) =
     iccProfileBase64 initialState"
proof -
  have p: "parseICCProfile rnd v4NoGreenProfile = Inl RangeError"
    by (rule parseICCProfile_name_error [OF v4NoGreen_tags v4NoGreen_name])
  have g: "\<exists>tags. readTagTable v4NoGreenProfile = Inr tags \<and> tags (js ''gXYZ'') = None \<and>
      tags (js ''rXYZ'') \<noteq> None \<and> tags (js ''bXYZ'') \<noteq> None"
    unfolding v4NoGreen_tags by (simp add: js_def)
  have h: "handleICCImport rnd (Some v4NoGreenProfile) initialState =
      initialState\<lparr>alerts := alerts initialState @
        [''Failed to load ICC profile:'' @ [CHR 0x0A] @ errorMessage RangeError]\<rparr>"
    by (rule handleICCImport_failure [OF p])
  have m: "errorMessage RangeError \<noteq> ''Not a matrix-based RGB profile (missing XYZ tags)''"
    by (simp add: errorMessage_def)
  have a: "alerts (handleICCImport rnd (Some v4NoGreenProfile) initialState) =
     [''Failed to load ICC profile:'' @ [CHR 0x0A] @ errorMessage RangeError]"
    unfolding h by (simp add: initialState_def)
  have w: "workingCS (handleICCImport rnd (Some v4NoGreenProfile) initialState) =
     workingCS initialState"
    unfolding h by simp
  have b: "iccProfileBase64 (handleICCImport rnd (Some v4NoGreenProfile) initialState) =
     iccProfileBase64 initialState"
    unfolding h by simp
  show ?thesis
    using g p m a w b by simp
qed

text \<open>
  A rounding that keeps 0 and takes \<open>1e-15\<close> to a positive number, as the rounding of
  the doubles does, makes the profile whose primaries are all 0 singular.
\<close>

lemma zeroPrimaries_singular:
  assumes "rnd 0 = 0" and "0 < rnd (1 / 10 ^ 15)"
  shows "parseICCProfile rnd zeroPrimariesProfile = Inl SingularMatrix"
proof -
  let ?t = "\<lparr>tag_offset = 0, tag_size = 20\<rparr>"
  let ?tags = "[js ''rXYZ'' \<mapsto> ?t, js ''gXYZ'' \<mapsto> ?t, js ''bXYZ'' \<mapsto> ?t]"
  have n: "readProfileName zeroPrimariesProfile ?tags = Inr (js ''Custom CS'')"
    by (simp add: readProfileName_def js_def)
  have t: "?tags (js ''rXYZ'') = Some ?t" "?tags (js ''gXYZ'') = Some ?t"
    "?tags (js ''bXYZ'') = Some ?t"
    by (simp_all add: js_def)
  have z: "customToLinearSRGB rnd (0, 0, 0) (0, 0, 0) (0, 0, 0) =
      ((0, 0, 0), (0, 0, 0), (0, 0, 0))"
    by (simp add: customToLinearSRGB_def mat3Multiply_def mat3Literal_def dot3_def assms(1)
        BRADFORD_D50_TO_D65_def XYZ_TO_LINEAR_SRGB_def)
  have d: "mat3Det rnd ((0, 0, 0), (0, 0, 0), (0, 0, 0)) = 0"
    by (simp add: mat3Det_def minor2_def assms(1))
  have "mat3Invert rnd (customToLinearSRGB rnd (0, 0, 0) (0, 0, 0) (0, 0, 0)) = None"
    unfolding mat3Invert_None_iff z d using assms(2) by simp
  then show ?thesis
    by (simp add: parseICCProfile_def andThen_def zeroPrimaries_tags n t zeroPrimaries_XYZ)
qed

text \<open>
  C7: for every rounding of the doubles, \<open>mat3Invert\<close> returns no matrix exactly when
  the magnitude of the determinant it computes is below the double of \<open>1e-15\<close>; and
  when the tag table, the description and the three primaries of a buffer are read,
  \<open>parseICCProfile\<close> fails with the singular-matrix error, and returns no working
  colour space, exactly when the computed determinant of the forward matrix derived from
  the primaries is that small.
\<close>

theorem singular_matrix_is_an_error:
  "(mat3Invert rnd M = None \<longleftrightarrow> \<bar>mat3Det rnd M\<bar> < rnd (1 / 10 ^ 15)) \<and>
   (readTagTable buf = Inr tags \<and> readProfileName buf tags = Inr nm \<and>
    tags (js ''rXYZ'') = Some rTag \<and> tags (js ''gXYZ'') = Some gTag \<and>
    tags (js ''bXYZ'') = Some bTag \<and>
    readXYZTag buf rTag = Inr rXYZ \<and> readXYZTag buf gTag = Inr gXYZ \<and>
    readXYZTag buf bTag = Inr bXYZ \<longrightarrow>
      (parseICCProfile rnd buf = Inl SingularMatrix \<longleftrightarrow>
         \<bar>mat3Det rnd (customToLinearSRGB rnd rXYZ gXYZ bXYZ)\<bar> < rnd (1 / 10 ^ 15)) \<and>
      (\<bar>mat3Det rnd (customToLinearSRGB rnd rXYZ gXYZ bXYZ)\<bar> < rnd (1 / 10 ^ 15) \<longrightarrow>
         (\<forall>cs. parseICCProfile rnd buf \<noteq> Inr cs)))"
proof (intro conjI impI)
  show "mat3Invert rnd M = None \<longleftrightarrow> \<bar>mat3Det rnd M\<bar> < rnd (1 / 10 ^ 15)"
    by (rule mat3Invert_None_iff)
next
  assume a: "readTagTable buf = Inr tags \<and> readProfileName buf tags = Inr nm \<and>
    tags (js ''rXYZ'') = Some rTag \<and> tags (js ''gXYZ'') = Some gTag \<and>
    tags (js ''bXYZ'') = Some bTag \<and>
    readXYZTag buf rTag = Inr rXYZ \<and> readXYZTag buf gTag = Inr gXYZ \<and>
    readXYZTag buf bTag = Inr bXYZ"
  let ?F = "customToLinearSRGB rnd rXYZ gXYZ bXYZ"
  show i: "parseICCProfile rnd buf = Inl SingularMatrix \<longleftrightarrow>
      \<bar>mat3Det rnd ?F\<bar> < rnd (1 / 10 ^ 15)"
  proof (cases "mat3Invert rnd ?F")
    case None
    then have "parseICCProfile rnd buf = Inl SingularMatrix"
      using a by (simp add: parseICCProfile_def andThen_def)
    then show ?thesis using None mat3Invert_None_iff [of rnd ?F] by simp
  next
    case (Some inv)
    have "parseICCProfile rnd buf =
        andThen (channelTRC buf (tags (js ''rTRC''))) (\<lambda>rT.
        andThen (channelTRC buf (tags (js ''gTRC''))) (\<lambda>gT.
        andThen (channelTRC buf (tags (js ''bTRC''))) (\<lambda>bT.
          Inr \<lparr>name = nm, toSRGBMatrix = ?F, fromSRGBMatrix = inv,
               rTRC = rT, gTRC = gT, bTRC = bT, perChannelTRC = True\<rparr>)))"
      using a Some by (simp add: parseICCProfile_def andThen_def)
    then have "parseICCProfile rnd buf \<noteq> Inl SingularMatrix"
      by (auto dest!: andThen_Inl dest: channelTRC_error)
    then show ?thesis using Some mat3Invert_None_iff [of rnd ?F] by simp
  qed
  show "\<forall>cs. parseICCProfile rnd buf \<noteq> Inr cs"
    if "\<bar>mat3Det rnd ?F\<bar> < rnd (1 / 10 ^ 15)"
    using that i by simp
qed

theorem singular_matrix_is_an_error_witness:
  "\<bar>mat3Det (\<lambda>x. x) (customToLinearSRGB (\<lambda>x. x) (0, 0, 0) (0, 0, 0) (0, 0, 0))\<bar>
     < 1 / 10 ^ 15 \<and>
   parseICCProfile (\<lambda>x. x) zeroPrimariesProfile = Inl SingularMatrix"
proof -
  let ?t = "\<lparr>tag_offset = 0, tag_size = 20\<rparr>"
  let ?tags = "[js ''rXYZ'' \<mapsto> ?t, js ''gXYZ'' \<mapsto> ?t, js ''bXYZ'' \<mapsto> ?t]"
  have n: "readProfileName zeroPrimariesProfile ?tags = Inr (js ''Custom CS'')"
    by (simp add: readProfileName_def js_def)
  have t: "?tags (js ''rXYZ'') = Some ?t" "?tags (js ''gXYZ'') = Some ?t"
    "?tags (js ''bXYZ'') = Some ?t"
    by (simp_all add: js_def)
  have d: "\<bar>mat3Det (\<lambda>x. x) (customToLinearSRGB (\<lambda>x. x) (0, 0, 0) (0, 0, 0) (0, 0, 0))\<bar>
      < 1 / 10 ^ 15"
    by (simp add: customToLinearSRGB_def mat3Multiply_def mat3Det_def mat3Literal_def
        dot3_def minor2_def BRADFORD_D50_TO_D65_def XYZ_TO_LINEAR_SRGB_def)
  show ?thesis
    using singular_matrix_is_an_error
      [of "\<lambda>x. x" "((0, 0, 0), (0, 0, 0), (0, 0, 0))" zeroPrimariesProfile ?tags
        "js ''Custom CS''" ?t ?t ?t "(0, 0, 0)" "(0, 0, 0)" "(0, 0, 0)"]
      zeroPrimaries_tags n t zeroPrimaries_XYZ d
    by simp
qed

subsection \<open>Parametric curves\<close>

text \<open>
  C9, as amended: for the parametric curves of type 3 and 4, \<open>encode\<close> either takes
  the linear branch, where it divides by \<open>c\<close> and \<open>c \<noteq> 0\<close>, or the power-law
  branch, whose divisors are \<open>g\<close> (in \<open>1 / g\<close>) and \<open>a\<close>; when \<open>c = 0\<close> every input
  takes the power-law branch; so \<open>encode\<close> never divides by a \<open>c\<close> that is 0, and it
  divides by zero on no input when \<open>g\<close> and \<open>a\<close> are not 0.
\<close>

theorem para_encode_divides_by_c_guarded:
  "(para3_encode_divisors g a b c d v = [c] \<and> c \<noteq> 0 \<and> v \<le> c * d \<and>
      trc_encode (Para3 g a b c d) v = v / c
    \<or> para3_encode_divisors g a b c d v = [g, a] \<and>
      trc_encode (Para3 g a b c d) v = (math_pow (max 0 v) (1 / g) - b) / a) \<and>
   (para4_encode_divisors g a b c d e f v = [c] \<and> c \<noteq> 0 \<and> v \<le> c * d + f \<and>
      trc_encode (Para4 g a b c d e f) v = (v - f) / c
    \<or> para4_encode_divisors g a b c d e f v = [g, a] \<and>
      trc_encode (Para4 g a b c d e f) v = (math_pow (max 0 (v - e)) (1 / g) - b) / a) \<and>
   (c = 0 \<longrightarrow>
      trc_encode (Para3 g a b c d) v = (math_pow (max 0 v) (1 / g) - b) / a \<and>
      trc_encode (Para4 g a b c d e f) v = (math_pow (max 0 (v - e)) (1 / g) - b) / a \<and>
      para3_encode_divisors g a b c d v = [g, a] \<and>
      para4_encode_divisors g a b c d e f v = [g, a]) \<and>
   (g \<noteq> 0 \<and> a \<noteq> 0 \<longrightarrow>
      0 \<notin> set (para3_encode_divisors g a b c d v) \<and>
      0 \<notin> set (para4_encode_divisors g a b c d e f v))"
  by (auto simp: para3_encode_def para4_encode_def para3_encode_divisors_def
      para4_encode_divisors_def Let_def)

theorem para_encode_divides_by_c_guarded_witness:
  "trc_encode (Para3 1 2 0 0 0) 1 = (math_pow (max 0 1) (1 / 1) - 0) / 2 \<and>
   trc_encode (Para4 1 2 0 0 0 0 0) 1 = (math_pow (max 0 (1 - 0)) (1 / 1) - 0) / 2 \<and>
   para3_encode_divisors 1 2 0 0 0 1 = [1, 2] \<and>
   para4_encode_divisors 1 2 0 0 0 0 0 1 = [1, 2] \<and>
   0 \<notin> set (para3_encode_divisors 1 2 0 0 0 1) \<and>
   0 \<notin> set (para4_encode_divisors 1 2 0 0 0 0 0 1)"
proof -
  have "(0 :: real) = 0" and "(1 :: real) \<noteq> 0 \<and> (2 :: real) \<noteq> 0"
    by simp_all
  then show ?thesis
    using para_encode_divides_by_c_guarded [of 1 2 0 0 0 1 0 0] by blast
qed

text \<open>
  The claim as first stated fails on a curve of type 3 with \<open>c = 0\<close> and \<open>a = 0\<close>: the
  input takes the power-law branch, which divides by \<open>a\<close>.
\<close>

theorem para_encode_divides_by_zero_counterexample:
  "para3_encode_divisors 1 0 0 0 0 (1 / 2) = [1, 0] \<and>
   0 \<in> set (para3_encode_divisors 1 0 0 0 0 (1 / 2))"
  by (simp add: para3_encode_divisors_def)

subsection \<open>Polar form\<close>

lemma atan2_range: "- pi < atan2 y x \<and> atan2 y x \<le> pi"
proof -
  have b: "- (pi / 2) < arctan (y / x)" "arctan (y / x) < pi / 2"
    using arctan_bounded [of "y / x"] by simp_all
  have p: "0 < pi" by simp
  consider "0 < x" | "x < 0" "0 \<le> y" | "x < 0" "y < 0" | "x = 0" by linarith
  then show ?thesis
  proof cases
    case 1
    then show ?thesis using b p by (simp add: atan2_def)
  next
    case 2
    then have "y / x \<le> 0" by (simp add: divide_nonneg_neg)
    then have "arctan (y / x) \<le> 0" using arctan_le_zero_iff by blast
    then show ?thesis using 2 b p by (simp add: atan2_def)
  next
    case 3
    then have "0 < y / x" by (simp add: divide_neg_neg)
    then have "0 < arctan (y / x)" using zero_less_arctan_iff by blast
    then show ?thesis using 3 b p by (simp add: atan2_def)
  next
    case 4
    show ?thesis
      unfolding atan2_def using 4 by (simp; use p in linarith)
  qed
qed





lemma hue_radians:
  "snd (oklabToOklch a b) * (pi / 180) = (if atan2 b a < 0 then atan2 b a + 2 * pi else atan2 b a)"
proof -
  have "atan2 b a * (180 / pi) < 0 \<longleftrightarrow> atan2 b a < 0"
    using pi_gt_zero by (simp add: divide_less_0_iff mult_less_0_iff)
  then show ?thesis
    by (simp add: oklabToOklch_def Let_def field_simps)
qed

lemma hue_range: "0 \<le> snd (oklabToOklch a b) \<and> snd (oklabToOklch a b) < 360"
proof -
  let ?h = "snd (oklabToOklch a b)"
  have r: "0 \<le> ?h * (pi / 180) \<and> ?h * (pi / 180) < 2 * pi"
    using atan2_range [of b a] by (simp only: hue_radians split: if_splits) auto
  have "0 \<le> ?h" using r pi_gt_zero by (auto simp: zero_le_mult_iff)
  moreover have k: "0 < pi / 180" by simp
  have "?h * (pi / 180) < 360 * (pi / 180)" using r by simp
  then have "?h < 360" using mult_less_cancel_right_pos [OF k, of ?h 360] by blast
  ultimately show ?thesis by simp
qed



subsection \<open>Gamut clamp\<close>

























subsection \<open>Gamma\<close>


lemma threshold_upper: "((0.04045 + 0.055) / 1.055 :: real) ^ 12 \<le> 0.003131 ^ 5"
  by (simp add: power_divide)

lemma threshold_lower: "(0.09047 :: real) ^ 12 \<le> 0.0031308 ^ 5"
  by (simp add: power_divide)

lemma encode_power_12:
  fixes x :: real
  assumes "0 < x"
  shows "(x powr (1 / 2.4)) ^ 12 = x ^ 5"
proof -
  have "(x powr (1 / 2.4)) ^ 12 = (x powr (1 / 2.4)) powr (real 12)"
    by (rule powr_realpow [symmetric]) (use assms in simp)
  also have "\<dots> = x powr (real 5)"
    by (simp add: powr_powr)
  also have "\<dots> = x ^ 5"
    by (rule powr_realpow [OF assms])
  finally show ?thesis .
qed

lemma decode_encode_power:
  fixes x :: real
  assumes "0 < x"
  shows "(x powr (1 / 2.4)) powr 2.4 = x"
  using assms by (simp add: powr_powr)

lemma linearToGamma_low: "0 \<le> x \<Longrightarrow> x < 0.0031308 \<Longrightarrow> linearToGamma x = 12.92 * x"
  by (simp add: linearToGamma_def)

lemma linearToGamma_high:
  "0.0031308 \<le> x \<Longrightarrow> x \<le> 1 \<Longrightarrow> linearToGamma x = 1.055 * (x powr (1 / 2.4)) - 0.055"
  by (simp add: linearToGamma_def)

lemma near_threshold:
  fixes p x :: real
  assumes "0.09047 \<le> p" "p < (0.04045 + 0.055) / 1.055" "x < 0.003131" "0.0031308 \<le> x"
  shows "\<bar>(1.055 * p - 0.055) / 12.92 - x\<bar> \<le> 1 / 10 ^ 6"
proof -
  have a: "(1.055 * p - 0.055) / 12.92 - x \<le> 1 / 10 ^ 6"
    using assms by (simp add: field_simps)
  have b: "x - (1.055 * p - 0.055) / 12.92 \<le> 1 / 10 ^ 6"
    using assms by (simp add: field_simps)
  show ?thesis
    using a b by (simp only: abs_le_iff minus_diff_eq)
qed

lemma gamma_roundtrip:
  assumes "0 \<le> x" "x \<le> 1"
  shows "\<bar>gammaToLinear (linearToGamma x) - x\<bar> \<le> 1 / 10 ^ 6"
proof (cases "x < 0.0031308")
  case True
  then have "linearToGamma x = 12.92 * x" using assms by (simp add: linearToGamma_low)
  moreover have "\<not> 12.92 * x \<ge> 0.04045" using True by simp
  ultimately have "gammaToLinear (linearToGamma x) = x"
    by (simp add: gammaToLinear_def)
  then show ?thesis by simp
next
  case False
  then have x: "0.0031308 \<le> x" "0 < x" by simp_all
  let ?p = "x powr (1 / 2.4)"
  let ?g = "1.055 * ?p - 0.055"
  have g: "linearToGamma x = ?g" using x assms by (simp add: linearToGamma_high)
  have p12: "?p ^ 12 = x ^ 5" by (rule encode_power_12 [OF x(2)])
  have p0: "0 < ?p" using x by simp
  show ?thesis
  proof (cases "?g \<ge> 0.04045")
    case True
    have "(?g + 0.055) / 1.055 = ?p" by simp
    then have "gammaToLinear ?g = ?p powr 2.4"
      using True by (simp only: gammaToLinear_def if_True)
    then show ?thesis using decode_encode_power [OF x(2)] g by simp
  next
    case False
    then have dec: "gammaToLinear ?g = ?g / 12.92"
      by (simp only: gammaToLinear_def if_False)
    have pu: "?p < (0.04045 + 0.055) / 1.055" using False by simp
    have "?p ^ 12 < ((0.04045 + 0.055) / 1.055) ^ 12"
      by (rule power_strict_mono [OF pu]) (use p0 in simp_all)
    then have "x ^ 5 < 0.003131 ^ 5" using threshold_upper p12 by linarith
    then have xu: "x < 0.003131"
      by (rule power_less_imp_less_base) simp
    have "(0.0031308 :: real) ^ 5 \<le> x ^ 5"
      by (rule power_mono [OF x(1)]) simp
    then have "(0.09047 :: real) ^ 12 \<le> ?p ^ 12" using threshold_lower p12 by linarith
    then have pl: "0.09047 \<le> ?p"
      using power_le_imp_le_base [of "0.09047" 11 ?p] p0 by simp
    have "\<bar>?g / 12.92 - x\<bar> \<le> 1 / 10 ^ 6"
      by (rule near_threshold [OF pl pu xu x(1)])
    then show ?thesis by (simp only: g dec)
  qed
qed

lemma linearToGamma_clamp: "linearToGamma x = linearToGamma (clamp01 x)"
  by (simp add: linearToGamma_def clamp01_def)

lemma gammaToLinear_negative: "x < 0 \<Longrightarrow> gammaToLinear x = x / 12.92 \<and> gammaToLinear x < 0"
  by (simp add: gammaToLinear_def)

lemma gammaToLinear_above_one:
  assumes "1 < x"
  shows "gammaToLinear x = ((x + 0.055) / 1.055) powr 2.4 \<and> 1 < gammaToLinear x"
proof -
  have e: "gammaToLinear x = ((x + 0.055) / 1.055) powr 2.4"
    using assms by (simp add: gammaToLinear_def)
  have "1 < (x + 0.055) / 1.055" using assms by simp
  then have "1 powr 2.4 < ((x + 0.055) / 1.055) powr 2.4"
    by (intro powr_less_mono2) simp_all
  then show ?thesis using e by simp
qed

text \<open>
  C8: for every \<open>x\<close> in \<open>[0, 1]\<close>, \<open>gammaToLinear (linearToGamma x)\<close> is within
  \<open>1e-6\<close> of \<open>x\<close>; \<open>linearToGamma\<close> sees its input only through the clamp to
  \<open>[0, 1]\<close>; and \<open>gammaToLinear\<close> does not clamp: a negative input gives a negative
  result, an input above 1 a result above 1.
\<close>

theorem gamma_roundtrip_and_clamping:
  "(0 \<le> x \<and> x \<le> 1 \<longrightarrow> \<bar>gammaToLinear (linearToGamma x) - x\<bar> \<le> 1 / 10 ^ 6) \<and>
   linearToGamma y = linearToGamma (clamp01 y) \<and>
   (y < 0 \<longrightarrow> gammaToLinear y = y / 12.92 \<and> gammaToLinear y < 0) \<and>
   (1 < y \<longrightarrow> gammaToLinear y = ((y + 0.055) / 1.055) powr 2.4 \<and> 1 < gammaToLinear y)"
  using gamma_roundtrip [of x] linearToGamma_clamp [of y] gammaToLinear_negative [of y]
    gammaToLinear_above_one [of y]
  by blast

theorem gamma_roundtrip_and_clamping_witness:
  "\<bar>gammaToLinear (linearToGamma (1 / 2)) - 1 / 2\<bar> \<le> 1 / 10 ^ 6 \<and>
   gammaToLinear (- 1) < 0 \<and> 1 < gammaToLinear 2"
proof -
  have "(0 :: real) \<le> 1 / 2" "(1 / 2 :: real) \<le> 1" "(- 1 :: real) < 0" "(1 :: real) < 2"
    by simp_all
  then show ?thesis
    using gamma_roundtrip_and_clamping [of "1 / 2" "- 1"]
      gamma_roundtrip_and_clamping [of "1 / 2" 2]
    by blast
qed

subsection \<open>OKLab round trip\<close>


lemma cube_root_near_pos:
  fixes v \<eta> \<delta> :: real
  assumes "0 < \<eta>" "\<eta> \<le> v" "\<bar>\<delta>\<bar> \<le> 3 * v * \<eta> * (v - \<eta>)"
  shows "\<bar>root 3 (v ^ 3 + \<delta>) - v\<bar> \<le> \<eta>"
proof -
  have v: "0 < v" using assms by linarith
  have up: "(v + \<eta>) ^ 3 = v ^ 3 + 3 * v * \<eta> * (v - \<eta>) + (6 * v * \<eta> ^ 2 + \<eta> ^ 3)"
    by (simp add: power3_eq_cube power2_eq_square algebra_simps)
  have lo: "(v - \<eta>) ^ 3 = v ^ 3 - 3 * v * \<eta> * (v - \<eta>) - \<eta> ^ 3"
    by (simp add: power3_eq_cube power2_eq_square algebra_simps)
  have p1: "0 \<le> 6 * v * \<eta> ^ 2 + \<eta> ^ 3" using v assms(1) by simp
  have p2: "0 \<le> \<eta> ^ 3" using assms(1) by simp
  have "v ^ 3 + \<delta> \<le> (v + \<eta>) ^ 3" using up p1 assms(3) by linarith
  then have "root 3 (v ^ 3 + \<delta>) \<le> root 3 ((v + \<eta>) ^ 3)" by simp
  then have a: "root 3 (v ^ 3 + \<delta>) \<le> v + \<eta>" by (simp add: odd_real_root_power_cancel)
  have "(v - \<eta>) ^ 3 \<le> v ^ 3 + \<delta>" using lo p2 assms(3) by linarith
  then have "root 3 ((v - \<eta>) ^ 3) \<le> root 3 (v ^ 3 + \<delta>)" by simp
  then have b: "v - \<eta> \<le> root 3 (v ^ 3 + \<delta>)" by (simp add: odd_real_root_power_cancel)
  show ?thesis using a b by (simp add: abs_le_iff)
qed

lemma cube_root_near:
  fixes v \<eta> \<delta> :: real
  assumes "0 < \<eta>" "\<eta> \<le> \<bar>v\<bar>" "\<bar>\<delta>\<bar> \<le> 3 * \<bar>v\<bar> * \<eta> * (\<bar>v\<bar> - \<eta>)"
  shows "\<bar>root 3 (v ^ 3 + \<delta>) - v\<bar> \<le> \<eta>"
proof (cases "0 \<le> v")
  case True
  then show ?thesis using cube_root_near_pos [of \<eta> v \<delta>] assms by simp
next
  case False
  then have n: "\<bar>v\<bar> = - v" by simp
  have m: "\<bar>root 3 ((- v) ^ 3 + (- \<delta>)) - (- v)\<bar> \<le> \<eta>"
  proof (rule cube_root_near_pos)
    show "0 < \<eta>" by (rule assms(1))
    show "\<eta> \<le> - v" using assms(2) n by simp
    show "\<bar>- \<delta>\<bar> \<le> 3 * (- v) * \<eta> * (- v - \<eta>)" using assms(3) n by simp
  qed
  have "(- v) ^ 3 + (- \<delta>) = - (v ^ 3 + \<delta>)" by (simp add: power3_eq_cube)
  then have "root 3 ((- v) ^ 3 + (- \<delta>)) = - root 3 (v ^ 3 + \<delta>)"
    by (simp only: real_root_minus)
  then have "\<bar>- root 3 (v ^ 3 + \<delta>) - (- v)\<bar> \<le> \<eta>"
    using m by (simp only:)
  then show ?thesis by (simp only: abs_le_iff) linarith
qed

lemma cube_root_near_bound:
  fixes v \<delta> :: real
  assumes "1 / 20 \<le> \<bar>v\<bar>" "\<bar>\<delta>\<bar> \<le> 7 / 10 ^ 10"
  shows "\<bar>root 3 (v ^ 3 + \<delta>) - v\<bar> \<le> 2 / 10 ^ 7"
proof (rule cube_root_near)
  show "(0 :: real) < 2 / 10 ^ 7" by simp
  show "2 / 10 ^ 7 \<le> \<bar>v\<bar>" using assms(1) by simp
  have "1 / 20 * (1 / 20 - 2 / 10 ^ 7) \<le> \<bar>v\<bar> * (\<bar>v\<bar> - 2 / 10 ^ 7)"
    using assms(1) by (intro mult_mono) simp_all
  then have "7 / 10 ^ 10 \<le> 3 * \<bar>v\<bar> * (2 / 10 ^ 7) * (\<bar>v\<bar> - 2 / 10 ^ 7)"
    by (simp add: field_simps)
  then show "\<bar>\<delta>\<bar> \<le> 3 * \<bar>v\<bar> * (2 / 10 ^ 7) * (\<bar>v\<bar> - 2 / 10 ^ 7)"
    using assms(2) by linarith
qed


lemma lms_perturb:
  fixes X Y Z :: real
  assumes "\<bar>X\<bar> \<le> 2" "\<bar>Y\<bar> \<le> 5 / 4" "\<bar>Z\<bar> \<le> 4"
    and "lmsToLinearSRGB X Y Z = (r, g, b)" and "linearSRGBToLMS r g b = (X', Y', Z')"
  shows "\<bar>X' - X\<bar> \<le> 7 / 10 ^ 10" "\<bar>Y' - Y\<bar> \<le> 7 / 10 ^ 10" "\<bar>Z' - Z\<bar> \<le> 7 / 10 ^ 10"
proof -
  have r: "r = 4.0767416621 * X - 3.3077115913 * Y + 0.2309699292 * Z"
    and g: "g = -1.2684380046 * X + 2.6097574011 * Y - 0.3413193965 * Z"
    and b: "b = -0.0041960863 * X - 0.7034186147 * Y + 1.7076147010 * Z"
    using assms(4) by (simp_all add: lmsToLinearSRGB_def)
  have X': "X' = 0.4122214708 * r + 0.5363325363 * g + 0.0514459929 * b"
    and Y': "Y' = 0.2119034982 * r + 0.6806995451 * g + 0.1073969566 * b"
    and Z': "Z' = 0.0883024619 * r + 0.2817188376 * g + 0.6299787005 * b"
    using assms(5) by (simp_all add: linearSRGBToLMS_def)
  have x: "- 2 \<le> X" "X \<le> 2" "- (5 / 4) \<le> Y" "Y \<le> 5 / 4" "- 4 \<le> Z" "Z \<le> 4"
    using assms(1-3) by (simp_all add: abs_le_iff) 
  show "\<bar>X' - X\<bar> \<le> 7 / 10 ^ 10"
    unfolding X' r g b abs_le_iff using x by (simp add: field_simps)
  show "\<bar>Y' - Y\<bar> \<le> 7 / 10 ^ 10"
    unfolding Y' r g b abs_le_iff using x by (simp add: field_simps)
  show "\<bar>Z' - Z\<bar> \<le> 7 / 10 ^ 10"
    unfolding Z' r g b abs_le_iff using x by (simp add: field_simps)
qed


lemma lab_from_roots:
  fixes pl pm ps L a b :: real
  assumes "0 \<le> L" "L \<le> 1" "\<bar>a\<bar> \<le> 0.4" "\<bar>b\<bar> \<le> 0.4"
    and "oklabToLMSRoot L a b = (l, m, s)"
    and "\<bar>pl - l\<bar> \<le> 2 / 10 ^ 7" "\<bar>pm - m\<bar> \<le> 2 / 10 ^ 7" "\<bar>ps - s\<bar> \<le> 2 / 10 ^ 7"
    and "lmsRootToOKLab pl pm ps = (L', a', b')"
  shows "\<bar>L' - L\<bar> \<le> 1 / 10 ^ 6" "\<bar>a' - a\<bar> \<le> 1 / 10 ^ 6" "\<bar>b' - b\<bar> \<le> 1 / 10 ^ 6"
proof -
  have l: "l = L + 0.3963377774 * a + 0.2158037573 * b"
    and m: "m = L - 0.1055613458 * a - 0.0638541728 * b"
    and s: "s = L - 0.0894841775 * a - 1.2914855480 * b"
    using assms(5) by (simp_all add: oklabToLMSRoot_def)
  have L': "L' = 0.2104542553 * pl + 0.7936177850 * pm - 0.0040720468 * ps"
    and a': "a' = 1.9779984951 * pl - 2.4285922050 * pm + 0.4505937099 * ps"
    and b': "b' = 0.0259040371 * pl + 0.7827717662 * pm - 0.8086757660 * ps"
    using assms(9) by (simp_all add: lmsRootToOKLab_def)
  have x: "0 \<le> L" "L \<le> 1" "- 0.4 \<le> a" "a \<le> 0.4" "- 0.4 \<le> b" "b \<le> 0.4"
    "pl - l \<le> 2 / 10 ^ 7" "- (2 / 10 ^ 7) \<le> pl - l"
    "pm - m \<le> 2 / 10 ^ 7" "- (2 / 10 ^ 7) \<le> pm - m"
    "ps - s \<le> 2 / 10 ^ 7" "- (2 / 10 ^ 7) \<le> ps - s"
    using assms(1-4,6-8) unfolding abs_le_iff by linarith+
  show "\<bar>L' - L\<bar> \<le> 1 / 10 ^ 6"
    unfolding L' abs_le_iff using x unfolding l m s by (simp add: field_simps)
  show "\<bar>a' - a\<bar> \<le> 1 / 10 ^ 6"
    unfolding a' abs_le_iff using x unfolding l m s by (simp add: field_simps)
  show "\<bar>b' - b\<bar> \<le> 1 / 10 ^ 6"
    unfolding b' abs_le_iff using x unfolding l m s by (simp add: field_simps)
qed


lemma cube_abs_bound:
  fixes v c :: real
  assumes "\<bar>v\<bar> \<le> c"
  shows "\<bar>v ^ 3\<bar> \<le> c ^ 3"
proof -
  have "\<bar>v\<bar> ^ 3 \<le> c ^ 3" using assms by (intro power_mono) simp_all
  then show ?thesis by (simp add: power_abs)
qed

lemma lms_root_range:
  fixes L a b :: real
  assumes "0 \<le> L" "L \<le> 1" "\<bar>a\<bar> \<le> 0.4" "\<bar>b\<bar> \<le> 0.4"
    and "oklabToLMSRoot L a b = (l, m, s)"
  shows "\<bar>l\<bar> \<le> 5 / 4" "\<bar>m\<bar> \<le> 107 / 100" "\<bar>s\<bar> \<le> 156 / 100"
proof -
  have l: "l = L + 0.3963377774 * a + 0.2158037573 * b"
    and m: "m = L - 0.1055613458 * a - 0.0638541728 * b"
    and s: "s = L - 0.0894841775 * a - 1.2914855480 * b"
    using assms(5) by (simp_all add: oklabToLMSRoot_def)
  have x: "0 \<le> L" "L \<le> 1" "- 0.4 \<le> a" "a \<le> 0.4" "- 0.4 \<le> b" "b \<le> 0.4"
    using assms(1-4) unfolding abs_le_iff by linarith+
  show "\<bar>l\<bar> \<le> 5 / 4"
    unfolding l abs_le_iff using x by (simp add: field_simps)
  show "\<bar>m\<bar> \<le> 107 / 100"
    unfolding m abs_le_iff using x by (simp add: field_simps)
  show "\<bar>s\<bar> \<le> 156 / 100"
    unfolding s abs_le_iff using x by (simp add: field_simps)
qed

text \<open>
  C1, as amended: for every OKLab triple \<open>(L, a, b)\<close> with \<open>L\<close> in \<open>[0, 1]\<close> and
  \<open>a, b\<close> in \<open>[-0.4, 0.4]\<close> whose three cube-root LMS components (step 1 of
  \<open>oklabToLinearSRGB\<close>) each have a magnitude of at least \<open>0.05\<close>, composing
  \<open>oklabToLinearSRGB\<close> with \<open>linearSRGBToOKLab\<close> reproduces \<open>(L, a, b)\<close> within
  \<open>1e-6\<close> in each component.
\<close>

theorem oklab_roundtrip_away_from_zero:
  assumes "0 \<le> L" "L \<le> 1" "\<bar>a\<bar> \<le> 0.4" "\<bar>b\<bar> \<le> 0.4"
    and "oklabToLMSRoot L a b = (l, m, s)"
    and "1 / 20 \<le> \<bar>l\<bar>" "1 / 20 \<le> \<bar>m\<bar>" "1 / 20 \<le> \<bar>s\<bar>"
    and "oklabRoundTrip L a b = (L', a', b')"
  shows "\<bar>L' - L\<bar> \<le> 1 / 10 ^ 6 \<and> \<bar>a' - a\<bar> \<le> 1 / 10 ^ 6 \<and> \<bar>b' - b\<bar> \<le> 1 / 10 ^ 6"
proof -
  obtain r g bb where rgb: "lmsToLinearSRGB (l ^ 3) (m ^ 3) (s ^ 3) = (r, g, bb)"
    by (metis prod_cases3)
  obtain X Y Z where lms: "linearSRGBToLMS r g bb = (X, Y, Z)"
    by (metis prod_cases3)
  have res: "lmsRootToOKLab (root 3 X) (root 3 Y) (root 3 Z) = (L', a', b')"
    using assms(9) by (simp add: oklabRoundTrip_def oklabToLinearSRGB_def linearSRGBToOKLab_def assms(5) rgb lms)
  note rng = lms_root_range [OF assms(1-5)]
  have "\<bar>l ^ 3\<bar> \<le> (5 / 4) ^ 3" by (rule cube_abs_bound [OF rng(1)])
  then have cl: "\<bar>l ^ 3\<bar> \<le> 2" by (simp add: power3_eq_cube)
  have "\<bar>m ^ 3\<bar> \<le> (107 / 100) ^ 3" by (rule cube_abs_bound [OF rng(2)])
  then have cm: "\<bar>m ^ 3\<bar> \<le> 5 / 4" by (simp add: power3_eq_cube)
  have "\<bar>s ^ 3\<bar> \<le> (156 / 100) ^ 3" by (rule cube_abs_bound [OF rng(3)])
  then have cs: "\<bar>s ^ 3\<bar> \<le> 4" by (simp add: power3_eq_cube)
  note d = lms_perturb [OF cl cm cs rgb lms]
  have "\<bar>root 3 (l ^ 3 + (X - l ^ 3)) - l\<bar> \<le> 2 / 10 ^ 7"
    by (rule cube_root_near_bound [OF assms(6) d(1)])
  then have pl: "\<bar>root 3 X - l\<bar> \<le> 2 / 10 ^ 7" by simp
  have "\<bar>root 3 (m ^ 3 + (Y - m ^ 3)) - m\<bar> \<le> 2 / 10 ^ 7"
    by (rule cube_root_near_bound [OF assms(7) d(2)])
  then have pm: "\<bar>root 3 Y - m\<bar> \<le> 2 / 10 ^ 7" by simp
  have "\<bar>root 3 (s ^ 3 + (Z - s ^ 3)) - s\<bar> \<le> 2 / 10 ^ 7"
    by (rule cube_root_near_bound [OF assms(8) d(3)])
  then have ps: "\<bar>root 3 Z - s\<bar> \<le> 2 / 10 ^ 7" by simp
  show ?thesis
    using lab_from_roots [OF assms(1-5) pl pm ps res] by blast
qed


theorem oklab_roundtrip_away_from_zero_witness:
  "\<bar>fst (oklabRoundTrip (1 / 2) 0 0) - 1 / 2\<bar> \<le> 1 / 10 ^ 6 \<and>
   \<bar>fst (snd (oklabRoundTrip (1 / 2) 0 0)) - 0\<bar> \<le> 1 / 10 ^ 6 \<and>
   \<bar>snd (snd (oklabRoundTrip (1 / 2) 0 0)) - 0\<bar> \<le> 1 / 10 ^ 6"
proof -
  have r: "oklabToLMSRoot (1 / 2) 0 0 = (1 / 2, 1 / 2, 1 / 2)"
    by (simp add: oklabToLMSRoot_def)
  have t: "oklabRoundTrip (1 / 2) 0 0 =
      (fst (oklabRoundTrip (1 / 2) 0 0), fst (snd (oklabRoundTrip (1 / 2) 0 0)),
       snd (snd (oklabRoundTrip (1 / 2) 0 0)))"
    by simp
  show ?thesis
    by (rule oklab_roundtrip_away_from_zero [OF _ _ _ _ r _ _ _ t]) simp_all
qed

text \<open>
  The claim as first stated fails where a cube-root LMS component is 0: at
  \<open>L = 0.09908444435, a = -0.25, b = 0\<close> the first component is 0, and the round trip
  returns an \<open>a\<close> below \<open>-0.250001\<close>.
\<close>

theorem oklab_roundtrip_counterexample:
  "(0 :: real) \<le> 0.09908444435 \<and> (0.09908444435 :: real) \<le> 1 \<and>
   (- 0.4 :: real) \<le> - 0.25 \<and> (- 0.25 :: real) \<le> 0.4 \<and>
   (- 0.4 :: real) \<le> 0 \<and> (0 :: real) \<le> 0.4 \<and>
   fst (snd (oklabRoundTrip 0.09908444435 (- 0.25) 0)) < - 0.25 - 1 / 10 ^ 6"
proof -
  define rgb where "rgb = oklabToLinearSRGB 0.09908444435 (- 0.25) 0"
  define lms where "lms = linearSRGBToLMS (fst rgb) (fst (snd rgb)) (snd (snd rgb))"
  define X where "X = fst lms"
  define Y where "Y = fst (snd lms)"
  define Z where "Z = snd (snd lms)"
  have rgb: "rgb = lmsToLinearSRGB 0 (0.1254747808 ^ 3) (0.121455488725 ^ 3)"
    by (simp add: rgb_def oklabToLinearSRGB_def oklabToLMSRoot_def)
  have "X \<le> (- (4 / 10 ^ 5)) ^ 3"
    by (simp add: X_def lms_def rgb lmsToLinearSRGB_def linearSRGBToLMS_def power3_eq_cube)
  then have "root 3 X \<le> root 3 ((- (4 / 10 ^ 5)) ^ 3)" by simp
  moreover have "root 3 ((- (4 / 10 ^ 5)) ^ 3) = - (4 / 10 ^ 5)"
    by (rule odd_real_root_power_cancel) simp
  ultimately have x: "root 3 X \<le> - (4 / 10 ^ 5)" by (simp only:)
  have "0.125474 ^ 3 \<le> Y"
    by (simp add: Y_def lms_def rgb lmsToLinearSRGB_def linearSRGBToLMS_def power3_eq_cube)
  then have "root 3 (0.125474 ^ 3) \<le> root 3 Y" by simp
  moreover have "root 3 (0.125474 ^ 3) = 0.125474"
    by (rule odd_real_root_power_cancel) simp
  ultimately have y: "0.125474 \<le> root 3 Y" by (simp only:)
  have "Z \<le> 0.121456 ^ 3"
    by (simp add: Z_def lms_def rgb lmsToLinearSRGB_def linearSRGBToLMS_def power3_eq_cube)
  then have "root 3 Z \<le> root 3 (0.121456 ^ 3)" by simp
  moreover have "root 3 (0.121456 ^ 3) = 0.121456"
    by (rule odd_real_root_power_cancel) simp
  ultimately have z: "root 3 Z \<le> 0.121456" by (simp only:)
  have "fst (snd (oklabRoundTrip 0.09908444435 (- 0.25) 0)) =
      1.9779984951 * root 3 X - 2.4285922050 * root 3 Y + 0.4505937099 * root 3 Z"
    by (simp add: oklabRoundTrip_def linearSRGBToOKLab_def lmsRootToOKLab_def case_prod_beta
        X_def Y_def Z_def lms_def rgb_def)
  moreover have "1.9779984951 * root 3 X - 2.4285922050 * root 3 Y + 0.4505937099 * root 3 Z
      < - 0.25 - 1 / 10 ^ 6"
    using x y z by (simp add: field_simps)
  ultimately show ?thesis by simp
qed

end
